theory Spec2Isabelle
  imports Complex_Main "HOL-Library.Sublist" "HOL-Library.AList"
begin

section \<open>Numbers\<close>

text \<open>
  Both the shader scalars (GLSL \<open>float\<close>, WGSL \<open>f32\<close>) and the JavaScript numbers of
  \<open>Geometry.getSize\<close> are IEEE-754 values. They are modelled by one datatype: a finite
  value carried as an exact real, the two infinities and not-a-number. Rounding, overflow
  of finite results and the sign of zero are not modelled: a finite zero stands for \<open>+0\<close>,
  which is the only zero the modelled code can produce as a divisor (\<open>1.0 - 1.0\<close>, a
  byte stride or an element count).
\<close>

datatype number = Finite real | PosInfinity | NegInfinity | NaN

fun is_finite :: "number \<Rightarrow> bool" where
  "is_finite (Finite x) = True"
| "is_finite PosInfinity = False"
| "is_finite NegInfinity = False"
| "is_finite NaN = False"

fun neg :: "number \<Rightarrow> number" where
  "neg (Finite x) = Finite (- x)"
| "neg PosInfinity = NegInfinity"
| "neg NegInfinity = PosInfinity"
| "neg NaN = NaN"

fun add :: "number \<Rightarrow> number \<Rightarrow> number" where
  "add (Finite x) (Finite y) = Finite (x + y)"
| "add NaN y = NaN"
| "add x NaN = NaN"
| "add PosInfinity NegInfinity = NaN"
| "add NegInfinity PosInfinity = NaN"
| "add PosInfinity y = PosInfinity"
| "add NegInfinity y = NegInfinity"
| "add x PosInfinity = PosInfinity"
| "add x NegInfinity = NegInfinity"

definition sub :: "number \<Rightarrow> number \<Rightarrow> number" where
  "sub x y = add x (neg y)"

text \<open>The infinity whose sign is that of a product or quotient of two signed operands.\<close>

definition signed_infinity :: "bool \<Rightarrow> number" where
  "signed_infinity negative = (if negative then NegInfinity else PosInfinity)"

fun mul :: "number \<Rightarrow> number \<Rightarrow> number" where
  "mul (Finite x) (Finite y) = Finite (x * y)"
| "mul NaN y = NaN"
| "mul x NaN = NaN"
| "mul (Finite x) PosInfinity = (if x = 0 then NaN else signed_infinity (x < 0))"
| "mul (Finite x) NegInfinity = (if x = 0 then NaN else signed_infinity (0 < x))"
| "mul PosInfinity (Finite y) = (if y = 0 then NaN else signed_infinity (y < 0))"
| "mul NegInfinity (Finite y) = (if y = 0 then NaN else signed_infinity (0 < y))"
| "mul PosInfinity PosInfinity = PosInfinity"
| "mul PosInfinity NegInfinity = NegInfinity"
| "mul NegInfinity PosInfinity = NegInfinity"
| "mul NegInfinity NegInfinity = PosInfinity"

fun divide_number :: "number \<Rightarrow> number \<Rightarrow> number" where
  "divide_number (Finite x) (Finite y) =
     (if y = 0 then (if x = 0 then NaN else signed_infinity (x < 0)) else Finite (x / y))"
| "divide_number NaN y = NaN"
| "divide_number x NaN = NaN"
| "divide_number (Finite x) PosInfinity = Finite 0"
| "divide_number (Finite x) NegInfinity = Finite 0"
| "divide_number PosInfinity (Finite y) = signed_infinity (y < 0)"
| "divide_number NegInfinity (Finite y) = signed_infinity (0 \<le> y)"
| "divide_number PosInfinity PosInfinity = NaN"
| "divide_number PosInfinity NegInfinity = NaN"
| "divide_number NegInfinity PosInfinity = NaN"
| "divide_number NegInfinity NegInfinity = NaN"

section \<open>ColorDodgeBlend: the shader fragments of both backends\<close>

text \<open>
  The filter passes two records of shader text to \<open>BlendModeFilter\<close>, one per backend
  (\<open>gl\<close>: GLSL, \<open>gpu\<close>: WGSL). Each text declares \<open>colorDodge\<close>, \<open>blendColorDodge\<close>
  and a \<open>main\<close> snippet. Every function of the text is translated into one HOL
  function; the free names of the \<open>main\<close> snippet (\<open>back\<close>, \<open>front\<close>, \<open>uBlend\<close>) are its
  arguments and the value it assigns to the output colour is its result.
\<close>

datatype vec3 = vec3 (red: number) (green: number) (blue: number)

datatype vec4 = vec4 (rgb: vec3) (alpha: number)

definition vec3_times :: "vec3 \<Rightarrow> number \<Rightarrow> vec3" where
  "vec3_times v s = vec3 (mul (red v) s) (mul (green v) s) (mul (blue v) s)"

definition vec3_plus :: "vec3 \<Rightarrow> vec3 \<Rightarrow> vec3" where
  "vec3_plus v w = vec3 (add (red v) (red w)) (add (green v) (green w)) (add (blue v) (blue w))"

subsection \<open>gl\<close>

definition colorDodge_gl :: "number \<Rightarrow> number \<Rightarrow> number" where
  "colorDodge_gl base blend = divide_number base (sub (Finite 1) blend)"

definition blendColorDodge_gl :: "vec3 \<Rightarrow> vec3 \<Rightarrow> number \<Rightarrow> vec3" where
  "blendColorDodge_gl base blend opacity =
     (let blended = vec3
            (colorDodge_gl (red base) (red blend))
            (colorDodge_gl (green base) (green blend))
            (colorDodge_gl (blue base) (blue blend))
      in vec3_plus (vec3_times blended opacity) (vec3_times base (sub (Finite 1) opacity)))"

definition main_gl :: "vec4 \<Rightarrow> vec4 \<Rightarrow> number \<Rightarrow> vec4" where
  "main_gl back front uBlend =
     vec4 (blendColorDodge_gl (rgb back) (rgb front) (alpha front)) uBlend"

subsection \<open>gpu\<close>

definition colorDodge_gpu :: "number \<Rightarrow> number \<Rightarrow> number" where
  "colorDodge_gpu base blend = divide_number base (sub (Finite 1) blend)"

definition blendColorDodge_gpu :: "vec3 \<Rightarrow> vec3 \<Rightarrow> number \<Rightarrow> vec3" where
  "blendColorDodge_gpu base blend opacity =
     (let blended = vec3
            (colorDodge_gpu (red base) (red blend))
            (colorDodge_gpu (green base) (green blend))
            (colorDodge_gpu (blue base) (blue blend))
      in vec3_plus (vec3_times blended opacity) (vec3_times base (sub (Finite 1) opacity)))"

definition main_gpu :: "vec4 \<Rightarrow> vec4 \<Rightarrow> number \<Rightarrow> vec4" where
  "main_gpu back front uBlend =
     vec4 (blendColorDodge_gpu (rgb back) (rgb front) (alpha front)) uBlend"

section \<open>Buffer and EventEmitter (external collaborators)\<close>

text \<open>
  A \<open>Buffer\<close> is an object with identity that several attributes may share, so buffers
  live in an explicit store: a reference is an index into the list of all buffers ever
  created. \<open>Buffer\<close> and \<open>Geometry\<close> both extend \<open>EventEmitter\<close>, the class of the
  package eventemitter3, a dependency outside the sources, modelled as the package
  documents it: an emitter keeps its listeners in registration order, \<open>on\<close> appends
  one (without looking for duplicates), \<open>emit\<close> calls the listeners of the event in
  that order and \<open>removeAllListeners\<close> empties the emitter it is called on, and no
  other emitter.
\<close>

type_synonym bufref = nat

datatype buffer_event = BufferUpdate | BufferChange

datatype geometry_event = Update | Destroy

text \<open>
  What a buffer can have as a listener: the handler \<open>onBufferUpdate\<close> of the geometry
  under study with that geometry as context, or any other callback, named by a number.
\<close>

datatype listener = OnBufferUpdate | OtherListener nat

record buffer =
  data :: "real list"
  index :: bool
  buffer_listeners :: "(buffer_event \<times> listener) list"

datatype buffer_like = IsBuffer bufref | TypedArray "real list" | NumberArray "real list"

text \<open>
  Calls that leave the geometry: a listener of the geometry notified, another listener
  of a buffer notified, \<open>destroy\<close> called on a buffer, \<open>getGeometryBounds\<close> called.
  Listeners are taken not to call back into the geometry. What \<open>Buffer.destroy\<close> does
  to the buffer is outside the sources: the call is recorded and the store is left as
  it is, so nothing is stated about the store after \<open>destroy(true)\<close>.
\<close>

datatype call =
    ListenerCalled nat geometry_event
  | BufferListenerCalled nat buffer_event
  | BufferDestroyCalled bufref
  | GetGeometryBoundsCalled

datatype error = TypeError

section \<open>Geometry\<close>

text \<open>
  The interface \<open>Attribute\<close>; every field but \<open>buffer\<close> is optional (\<open>None\<close> is
  \<open>undefined\<close>). The same record with a \<open>buffer_like\<close> in place of the buffer is the
  object form of \<open>AttributeOption\<close>. Strides, offsets and counts are natural numbers.
\<close>

record 'b attribute_of =
  buffer :: 'b
  format :: "string option"
  stride :: "nat option"
  offset :: "nat option"
  instanced :: "bool option"
  attr_size :: "nat option"
  start :: "nat option"
  divisor :: "nat option"

type_synonym attribute = "bufref attribute_of"

datatype attribute_option = Plain buffer_like | WithFields "buffer_like attribute_of"

datatype Topology = PointList | LineList | LineStrip | TriangleList | TriangleStrip

record Bounds =
  minX :: number
  minY :: number
  maxX :: number
  maxY :: number

text \<open>
  The fields of the class. \<open>attributes\<close> is a plain object used as a dictionary whose
  keys are shader attribute names (identifiers such as \<open>aPosition\<close>): \<open>for ... in\<close>
  enumerates such keys in the order of their first insertion, so the dictionary is an
  association list in that order. \<open>destroy\<close> sets \<open>attributes\<close>, \<open>buffers\<close>,
  \<open>indexBuffer\<close> and \<open>_bounds\<close> to \<open>null\<close>, which is \<open>None\<close> here (as is an
  \<open>indexBuffer\<close> never assigned). \<open>listeners\<close> is the state inherited from
  \<open>EventEmitter\<close>; a listener of the geometry is a callback named by a number.
\<close>

record geometry =
  topology :: Topology
  uid :: nat
  attributes :: "(string \<times> attribute) list option"
  buffers :: "bufref list option"
  indexBuffer :: "bufref option"
  priv_layoutKey :: nat
  instanceCount :: nat
  priv_bounds :: "Bounds option"
  priv_boundsDirty :: bool
  listeners :: "(geometry_event \<times> nat) list"

text \<open>
  The state the methods run in: the geometry, the store of buffers and the calls made
  so far. A method returns its result or the error it throws, and the state it leaves.
  Every reference held by the geometry or passed to a method is taken to be an index
  of the store, as every Buffer reference of the program is a Buffer.
\<close>

record world =
  geo :: geometry
  heap :: "buffer list"
  calls :: "call list"

type_synonym 'a result = "(error + 'a) \<times> world"

definition and_then :: "unit result \<Rightarrow> (world \<Rightarrow> unit result) \<Rightarrow> unit result" where
  "and_then r f = (case r of (Inl e, w) \<Rightarrow> (Inl e, w) | (Inr u, w) \<Rightarrow> f w)"

subsection \<open>EventEmitter operations\<close>

definition buffer_on :: "bufref \<Rightarrow> buffer_event \<Rightarrow> listener \<Rightarrow> buffer list \<Rightarrow> buffer list" where
  "buffer_on r ev l h =
     h[r := (h ! r)\<lparr>buffer_listeners := buffer_listeners (h ! r) @ [(ev, l)]\<rparr>]"

definition on :: "geometry_event \<Rightarrow> nat \<Rightarrow> world \<Rightarrow> world" where
  "on ev cb w = w\<lparr>geo := (geo w)\<lparr>listeners := listeners (geo w) @ [(ev, cb)]\<rparr>\<rparr>"

definition emit :: "geometry_event \<Rightarrow> world \<Rightarrow> world" where
  "emit ev w =
     w\<lparr>calls := calls w @
          map (\<lambda>p. ListenerCalled (snd p) ev) (filter (\<lambda>p. fst p = ev) (listeners (geo w)))\<rparr>"

definition removeAllListeners :: "world \<Rightarrow> world" where
  "removeAllListeners w = w\<lparr>geo := (geo w)\<lparr>listeners := []\<rparr>\<rparr>"

subsection \<open>Normalising the arguments\<close>

text \<open>
  Modelled from the spec: \<open>ensureIsBuffer\<close> (utils/ensureIsBuffer) is not among the
  sources. The spec has it wrap every input that is not a Buffer into a new Buffer
  (vertex usage for an attribute, index usage for \<open>addIndex\<close>) and pass an existing
  Buffer through. A new Buffer is a new object with no listener.
\<close>

definition ensureIsBuffer :: "buffer_like \<Rightarrow> bool \<Rightarrow> buffer list \<Rightarrow> bufref \<times> buffer list" where
  "ensureIsBuffer b idx h =
     (case b of
        IsBuffer r \<Rightarrow> (r, h)
      | TypedArray xs \<Rightarrow> (length h, h @ [\<lparr>data = xs, index = idx, buffer_listeners = []\<rparr>])
      | NumberArray xs \<Rightarrow> (length h, h @ [\<lparr>data = xs, index = idx, buffer_listeners = []\<rparr>]))"

definition ensureIsAttribute :: "attribute_option \<Rightarrow> buffer list \<Rightarrow> attribute \<times> buffer list" where
  "ensureIsAttribute attribute h =
     (let a = (case attribute of
                 Plain b \<Rightarrow> \<lparr>buffer = b, format = None, stride = None, offset = None,
                             instanced = None, attr_size = None, start = None, divisor = None\<rparr>
               | WithFields d \<Rightarrow> d);
          (r, h') = ensureIsBuffer (buffer a) False h
      in (\<lparr>buffer = r, format = format a, stride = stride a, offset = offset a,
           instanced = instanced a, attr_size = attr_size a, start = start a,
           divisor = divisor a\<rparr>, h'))"

subsection \<open>The methods\<close>

definition onBufferUpdate :: "world \<Rightarrow> world" where
  "onBufferUpdate w = emit Update (w\<lparr>geo := (geo w)\<lparr>priv_boundsDirty := True\<rparr>\<rparr>)"

definition getAttribute :: "string \<Rightarrow> world \<Rightarrow> error + attribute option" where
  "getAttribute id' w =
     (case attributes (geo w) of
        None \<Rightarrow> Inl TypeError
      | Some as \<Rightarrow> Inr (map_of as id'))"

definition getIndex :: "world \<Rightarrow> error + bufref option" where
  "getIndex w = Inr (indexBuffer (geo w))"

definition getBuffer :: "string \<Rightarrow> world \<Rightarrow> error + bufref" where
  "getBuffer id' w =
     (case getAttribute id' w of
        Inl e \<Rightarrow> Inl e
      | Inr None \<Rightarrow> Inl TypeError
      | Inr (Some a) \<Rightarrow> Inr (buffer a))"

text \<open>\<open>undefined\<close> converts to NaN; NaN and zero are the falsy numbers.\<close>

definition to_number :: "nat option \<Rightarrow> number" where
  "to_number v = (case v of None \<Rightarrow> NaN | Some n \<Rightarrow> Finite (real n))"

fun truthy :: "number \<Rightarrow> bool" where
  "truthy (Finite x) = (x \<noteq> 0)"
| "truthy PosInfinity = True"
| "truthy NegInfinity = True"
| "truthy NaN = False"

text \<open>
  \<open>for ... in\<close> over \<open>null\<close> runs no iteration and does not throw; over an object it
  returns in its first iteration.
\<close>

definition getSize :: "world \<Rightarrow> error + number" where
  "getSize w =
     (case attributes (geo w) of
        None \<Rightarrow> Inr (Finite 0)
      | Some [] \<Rightarrow> Inr (Finite 0)
      | Some ((i, attribute) # rest) \<Rightarrow>
          (let buffer = heap w ! buffer attribute;
               q = divide_number (to_number (stride attribute)) (Finite 4)
            in Inr (divide_number (Finite (real (length (data buffer))))
                      (if truthy q then q else to_number (attr_size attribute)))))"

definition addAttribute :: "string \<Rightarrow> attribute_option \<Rightarrow> world \<Rightarrow> unit result" where
  "addAttribute name attributeOption w =
     (let (attribute, h) = ensureIsAttribute attributeOption (heap w);
          w1 = w\<lparr>heap := h\<rparr>
      in case buffers (geo w1) of
           None \<Rightarrow> (Inl TypeError, w1)
         | Some bs \<Rightarrow>
            (let w2 = (if buffer attribute \<notin> set bs
                       then w1\<lparr>geo := (geo w1)\<lparr>buffers := Some (bs @ [buffer attribute])\<rparr>,
                               heap := buffer_on (buffer attribute) BufferChange OnBufferUpdate
                                         (buffer_on (buffer attribute) BufferUpdate OnBufferUpdate h)\<rparr>
                       else w1)
             in case attributes (geo w2) of
                  None \<Rightarrow> (Inl TypeError, w2)
                | Some as \<Rightarrow>
                   (Inr (), w2\<lparr>geo := (geo w2)\<lparr>attributes := Some (AList.update name attribute as)\<rparr>\<rparr>)))"

definition addIndex :: "buffer_like \<Rightarrow> world \<Rightarrow> unit result" where
  "addIndex ib w =
     (let (r, h) = ensureIsBuffer ib True (heap w);
          w1 = w\<lparr>geo := (geo w)\<lparr>indexBuffer := Some r\<rparr>, heap := h\<rparr>
      in case buffers (geo w1) of
           None \<Rightarrow> (Inl TypeError, w1)
         | Some bs \<Rightarrow> (Inr (), w1\<lparr>geo := (geo w1)\<lparr>buffers := Some (bs @ [r])\<rparr>\<rparr>))"

text \<open>
  Modelled from the spec: \<open>getGeometryBounds\<close> (utils/getGeometryBounds) is not among
  the sources. The spec has it compute the box of the attribute of the given name and
  write it into the Bounds object it is given, which it returns. It finds the attribute
  through \<open>getAttribute\<close>; what it computes from the attribute and the buffers is the
  parameter \<open>calc\<close>.
\<close>

definition getGeometryBounds ::
  "(attribute option \<Rightarrow> buffer list \<Rightarrow> Bounds \<Rightarrow> Bounds) \<Rightarrow> string \<Rightarrow> world \<Rightarrow> (Bounds option) result" where
  "getGeometryBounds calc attributeId w =
     (case getAttribute attributeId w of
        Inl e \<Rightarrow> (Inl e, w)
      | Inr a \<Rightarrow>
         (case priv_bounds (geo w) of
            None \<Rightarrow> (Inl TypeError, w)
          | Some b \<Rightarrow>
             (let b' = calc a (heap w) b
              in (Inr (Some b'), w\<lparr>geo := (geo w)\<lparr>priv_bounds := Some b'\<rparr>\<rparr>))))"

definition bounds ::
  "(attribute option \<Rightarrow> buffer list \<Rightarrow> Bounds \<Rightarrow> Bounds) \<Rightarrow> world \<Rightarrow> (Bounds option) result" where
  "bounds calc w =
     (if \<not> priv_boundsDirty (geo w) then (Inr (priv_bounds (geo w)), w)
      else getGeometryBounds calc ''aPosition''
             (w\<lparr>geo := (geo w)\<lparr>priv_boundsDirty := False\<rparr>,
                calls := calls w @ [GetGeometryBoundsCalled]\<rparr>))"

definition destroy :: "bool \<Rightarrow> world \<Rightarrow> unit result" where
  "destroy destroyBuffers w =
     (let w1 = removeAllListeners (emit Destroy w);
          cleared = (\<lambda>v. v\<lparr>geo := (geo v)\<lparr>attributes := None, buffers := None,
                                            indexBuffer := None, priv_bounds := None\<rparr>\<rparr>)
      in if destroyBuffers
         then (case buffers (geo w1) of
                 None \<Rightarrow> (Inl TypeError, w1)
               | Some bs \<Rightarrow> (Inr (), cleared (w1\<lparr>calls := calls w1 @ map BufferDestroyCalled bs\<rparr>)))
         else (Inr (), cleared w1))"

subsection \<open>The constructor\<close>

text \<open>The loop \<open>for (const i in attributes) this.addAttribute(i, attributes[i])\<close>.\<close>

fun addAttributes :: "(string \<times> attribute_option) list \<Rightarrow> world \<Rightarrow> unit result" where
  "addAttributes [] w = (Inr (), w)"
| "addAttributes ((i, a) # rest) w = and_then (addAttribute i a w) (addAttributes rest)"

text \<open>
  The arguments are the fields the constructor reads from its descriptor, then what it
  takes from its environment: the fresh \<open>uid\<close>, the value of \<open>new Bounds()\<close> and the
  store of buffers.
\<close>

definition Geometry ::
  "(string \<times> attribute_option) list option \<Rightarrow> buffer_like option \<Rightarrow> Topology option \<Rightarrow> nat option \<Rightarrow>
   nat \<Rightarrow> Bounds \<Rightarrow> buffer list \<Rightarrow> unit result" where
  "Geometry attrs ib topo count fresh_uid new_Bounds h =
     (let w0 = \<lparr>geo = \<lparr>topology = TriangleList, uid = fresh_uid, attributes = Some [],
                       buffers = Some [], indexBuffer = None, priv_layoutKey = 0,
                       instanceCount = 1, priv_bounds = Some new_Bounds,
                       priv_boundsDirty = True, listeners = []\<rparr>,
                heap = h, calls = []\<rparr>;
          r1 = (case attrs of None \<Rightarrow> (Inr (), w0) | Some l \<Rightarrow> addAttributes l w0);
          r2 = and_then r1 (\<lambda>w. (Inr (), w\<lparr>geo := (geo w)\<lparr>instanceCount :=
                                     (case count of None \<Rightarrow> 1 | Some n \<Rightarrow> n)\<rparr>\<rparr>));
          r3 = and_then r2 (\<lambda>w. case ib of None \<Rightarrow> (Inr (), w) | Some b \<Rightarrow> addIndex b w)
      in and_then r3 (\<lambda>w. (Inr (), w\<lparr>geo := (geo w)\<lparr>topology :=
                               (case topo of None \<Rightarrow> TriangleList | Some t \<Rightarrow> t)\<rparr>\<rparr>)))"

subsection \<open>Notifications from a buffer\<close>

text \<open>
  Modelled from the spec: \<open>Buffer\<close> is not among the sources. When its content changes
  (\<open>update\<close>) or it is resized (\<open>change\<close>) it emits the event, synchronously: each
  listener registered for the event is called, in registration order.
\<close>

fun invoke :: "listener \<Rightarrow> buffer_event \<Rightarrow> world \<Rightarrow> world" where
  "invoke OnBufferUpdate ev w = onBufferUpdate w"
| "invoke (OtherListener cb) ev w = w\<lparr>calls := calls w @ [BufferListenerCalled cb ev]\<rparr>"

definition buffer_emit :: "bufref \<Rightarrow> buffer_event \<Rightarrow> world \<Rightarrow> world" where
  "buffer_emit r ev w =
     fold (\<lambda>l. invoke l ev)
       (map snd (filter (\<lambda>p. fst p = ev) (buffer_listeners (heap w ! r)))) w"

section \<open>Notions used in the statements\<close>

text \<open>The buffer-like value an attribute option carries.\<close>

definition spec_buffer :: "attribute_option \<Rightarrow> buffer_like" where
  "spec_buffer attribute = (case attribute of Plain b \<Rightarrow> b | WithFields d \<Rightarrow> buffer d)"

text \<open>
  The geometry is subscribed to an event of a buffer when its handler is among the
  listeners the buffer holds for that event.
\<close>

definition subscribed :: "bufref \<Rightarrow> buffer_event \<Rightarrow> world \<Rightarrow> bool" where
  "subscribed r ev w =
     (r < length (heap w) \<and> (ev, OnBufferUpdate) \<in> set (buffer_listeners (heap w ! r)))"

text \<open>The calls to the geometry's own listeners for an event, in the order \<open>emit\<close> makes them.\<close>

definition notifications :: "geometry_event \<Rightarrow> world \<Rightarrow> call list" where
  "notifications ev w =
     map (\<lambda>p. ListenerCalled (snd p) ev) (filter (\<lambda>p. fst p = ev) (listeners (geo w)))"

fun is_notification :: "call \<Rightarrow> bool" where
  "is_notification (ListenerCalled cb ev) = True"
| "is_notification (BufferListenerCalled cb ev) = False"
| "is_notification (BufferDestroyCalled r) = False"
| "is_notification GetGeometryBoundsCalled = False"

text \<open>
  A run of the two methods that build a geometry, and the buffers to which the
  \<open>addAttribute\<close> calls of the run resolve their argument.
\<close>

datatype setup_call = AddAttribute string attribute_option | AddIndex buffer_like

fun perform :: "setup_call list \<Rightarrow> world \<Rightarrow> unit result" where
  "perform [] w = (Inr (), w)"
| "perform (AddAttribute name a # cs) w = and_then (addAttribute name a w) (perform cs)"
| "perform (AddIndex ib # cs) w = and_then (addIndex ib w) (perform cs)"

fun attribute_targets :: "setup_call list \<Rightarrow> world \<Rightarrow> bufref list" where
  "attribute_targets [] w = []"
| "attribute_targets (AddAttribute name a # cs) w =
     buffer (fst (ensureIsAttribute a (heap w))) # attribute_targets cs (snd (addAttribute name a w))"
| "attribute_targets (AddIndex ib # cs) w = attribute_targets cs (snd (addIndex ib w))"

text \<open>
  \<open>getSize\<close> as the specification words it, for comparison with the method: zero
  without attributes; otherwise the floor of the element count of the first attribute's
  buffer over the per-vertex count, which is the declared \<open>size\<close>, or a quarter of the
  stride when \<open>size\<close> is absent. The specification gives no value when the per-vertex
  count is absent or zero (\<open>None\<close>).
\<close>

definition getSize_spec :: "world \<Rightarrow> number option" where
  "getSize_spec w =
     (case attributes (geo w) of
        None \<Rightarrow> Some (Finite 0)
      | Some [] \<Rightarrow> Some (Finite 0)
      | Some ((i, attribute) # rest) \<Rightarrow>
          (let count = real (length (data (heap w ! buffer attribute)));
               per = (case attr_size attribute of
                        Some z \<Rightarrow> Some (real z)
                      | None \<Rightarrow> map_option (\<lambda>s. real s / 4) (stride attribute))
           in case per of
                None \<Rightarrow> None
              | Some p \<Rightarrow> if p = 0 then None else Some (Finite (of_int \<lfloor>count / p\<rfloor>))))"

text \<open>
  An attribute option is valid in a store when the Buffer it is, or holds, is a buffer
  of the store; an array is always valid.
\<close>

definition valid_spec :: "buffer list \<Rightarrow> attribute_option \<Rightarrow> bool" where
  "valid_spec h a =
     (case spec_buffer a of
        IsBuffer r \<Rightarrow> r < length h
      | TypedArray xs \<Rightarrow> True
      | NumberArray xs \<Rightarrow> True)"

text \<open>
  The geometry is subscribed, for both events, to the buffer of every attribute it
  holds.
\<close>

definition attributes_subscribed :: "world \<Rightarrow> bool" where
  "attributes_subscribed w =
     (case attributes (geo w) of
        None \<Rightarrow> True
      | Some as \<Rightarrow>
          (\<forall>p \<in> set as. subscribed (buffer (snd p)) BufferUpdate w
                       \<and> subscribed (buffer (snd p)) BufferChange w))"

text \<open>The state \<open>destroy\<close> leaves: the two collections and the cached Bounds are \<open>null\<close>.\<close>

definition destroyed :: "world \<Rightarrow> bool" where
  "destroyed w =
     (attributes (geo w) = None \<and> buffers (geo w) = None \<and> priv_bounds (geo w) = None)"

text \<open>
  Anything that can happen to a geometry: a call of one of its methods, of one of the
  emitter methods it inherits, or a notification from a buffer. \<open>after_call\<close> is the state the
  event leaves, whether the call returns or throws; the calculator is the one the
  \<open>bounds\<close> getter runs with.
\<close>

datatype later_call =
    CallAddAttribute string attribute_option
  | CallAddIndex buffer_like
  | CallGetAttribute string
  | CallGetIndex
  | CallGetBuffer string
  | CallGetSize
  | CallBounds
  | CallDestroy bool
  | CallOn geometry_event nat
  | CallEmit geometry_event
  | CallRemoveAllListeners
  | Notification bufref buffer_event

fun after_call ::
  "(attribute option \<Rightarrow> buffer list \<Rightarrow> Bounds \<Rightarrow> Bounds) \<Rightarrow> later_call \<Rightarrow> world \<Rightarrow> world" where
  "after_call calc (CallAddAttribute name a) w = snd (addAttribute name a w)"
| "after_call calc (CallAddIndex ib) w = snd (addIndex ib w)"
| "after_call calc (CallGetAttribute name) w = w"
| "after_call calc CallGetIndex w = w"
| "after_call calc (CallGetBuffer name) w = w"
| "after_call calc CallGetSize w = w"
| "after_call calc CallBounds w = snd (bounds calc w)"
| "after_call calc (CallDestroy d) w = snd (destroy d w)"
| "after_call calc (CallOn ev cb) w = on ev cb w"
| "after_call calc (CallEmit ev) w = emit ev w"
| "after_call calc CallRemoveAllListeners w = removeAllListeners w"
| "after_call calc (Notification r ev) w = buffer_emit r ev w"

definition after_calls ::
  "(attribute option \<Rightarrow> buffer list \<Rightarrow> Bounds \<Rightarrow> Bounds) \<Rightarrow> later_call list \<Rightarrow> world \<Rightarrow> world" where
  "after_calls calc cs w = fold (after_call calc) cs w"

text \<open>
  The buffers a run brings into \<open>buffers\<close> through \<open>addIndex\<close>: those an \<open>addIndex\<close>
  call of the run appends when they are not there yet. A run is valid when every
  attribute option is valid in the store it is given in.
\<close>

fun index_first :: "setup_call list \<Rightarrow> world \<Rightarrow> bufref list" where
  "index_first [] w = []"
| "index_first (AddAttribute name a # cs) w = index_first cs (snd (addAttribute name a w))"
| "index_first (AddIndex ib # cs) w =
     (if fst (ensureIsBuffer ib True (heap w)) \<in> set (case buffers (geo w) of None \<Rightarrow> [] | Some bs \<Rightarrow> bs)
      then [] else [fst (ensureIsBuffer ib True (heap w))])
     @ index_first cs (snd (addIndex ib w))"

fun valid_run :: "setup_call list \<Rightarrow> world \<Rightarrow> bool" where
  "valid_run [] w = True"
| "valid_run (AddAttribute name a # cs) w =
     (valid_spec (heap w) a \<and> valid_run cs (snd (addAttribute name a w)))"
| "valid_run (AddIndex ib # cs) w = valid_run cs (snd (addIndex ib w))"

subsection \<open>Concrete values for examples\<close>

definition box :: Bounds where
  "box = \<lparr>minX = PosInfinity, minY = PosInfinity, maxX = NegInfinity, maxY = NegInfinity\<rparr>"

text \<open>A calculator that sets the box to the unit square, whatever the attribute.\<close>

definition unit_calc :: "attribute option \<Rightarrow> buffer list \<Rightarrow> Bounds \<Rightarrow> Bounds" where
  "unit_calc a h b = \<lparr>minX = Finite 0, minY = Finite 0, maxX = Finite 1, maxY = Finite 1\<rparr>"

definition described :: "buffer_like \<Rightarrow> nat option \<Rightarrow> nat option \<Rightarrow> attribute_option" where
  "described b st sz =
     WithFields \<lparr>buffer = b, format = None, stride = st, offset = None, instanced = None,
                 attr_size = sz, start = None, divisor = None\<rparr>"

definition plain_buffer :: buffer where
  "plain_buffer = \<lparr>data = [0, 0, 0, 100, 100, 100, 100, 0], index = False, buffer_listeners = []\<rparr>"

text \<open>A geometry just constructed from an empty descriptor, with one buffer in the store.\<close>

definition empty_geometry :: world where
  "empty_geometry = snd (Geometry None None None None 0 box [plain_buffer])"

text \<open>
  A geometry constructed with the single attribute \<open>aPosition\<close>, given as an object
  with a number array for buffer and the stride and size stated.
\<close>

definition sized_geometry :: "nat option \<Rightarrow> nat option \<Rightarrow> real list \<Rightarrow> world" where
  "sized_geometry st sz xs =
     snd (Geometry (Some [(''aPosition'', described (NumberArray xs) st sz)])
            None None None 0 box [])"

text \<open>
  The store holds one Buffer, number 0. It is given to \<open>addAttribute\<close> and then to
  \<open>addIndex\<close>: the second call appends it again.
\<close>

definition attribute_and_index :: world where
  "attribute_and_index =
     snd (addIndex (IsBuffer 0) (snd (addAttribute ''aPosition'' (Plain (IsBuffer 0)) empty_geometry)))"

text \<open>
  The same Buffer given to \<open>addIndex\<close> first and to \<open>addAttribute\<close> after it, with a
  listener for \<open>update\<close> on the geometry; then the bounds are read once.
\<close>

definition index_then_attribute :: world where
  "index_then_attribute =
     snd (bounds unit_calc
       (snd (addAttribute ''aPosition'' (Plain (IsBuffer 0))
         (snd (addIndex (IsBuffer 0) (on Update 7 empty_geometry))))))"

text \<open>
  A geometry with listeners for both of its events; the same with the attribute
  \<open>aPosition\<close> added on Buffer 0; and that one after its bounds have been read once.
\<close>

definition listened_geometry :: world where
  "listened_geometry = on Destroy 8 (on Update 7 empty_geometry)"

definition unread_geometry :: world where
  "unread_geometry = snd (addAttribute ''aPosition'' (Plain (IsBuffer 0)) listened_geometry)"

definition watched_geometry :: world where
  "watched_geometry = snd (bounds unit_calc unread_geometry)"

text \<open>
  A geometry with a listener for \<open>update\<close> whose only buffer, Buffer 0, came through
  \<open>addIndex\<close>; and a run that passes Buffer 0 to \<open>addIndex\<close> again and adds an
  attribute on a new array.
\<close>

definition indexed_geometry :: world where
  "indexed_geometry = snd (addIndex (IsBuffer 0) (on Update 7 empty_geometry))"

definition index_run :: "setup_call list" where
  "index_run = [AddIndex (IsBuffer 0), AddAttribute ''aPosition'' (Plain (NumberArray [1, 2]))]"

text \<open>
  A geometry with the attribute \<open>aPosition\<close> on its own buffer (number 0) and an index
  buffer made from an array (number 1).
\<close>

definition complete_geometry :: world where
  "complete_geometry =
     snd (addIndex (NumberArray [0, 1, 2]) (sized_geometry None (Some 2) [0, 0, 0, 100, 100, 100]))"

text \<open>The attribute a plain Buffer 0 normalises to, and the box \<open>unit_calc\<close> writes.\<close>

definition position0 :: attribute where
  "position0 = \<lparr>buffer = 0, format = None, stride = None, offset = None,
               instanced = None, attr_size = None, start = None, divisor = None\<rparr>"

definition unit_square :: Bounds where
  "unit_square = \<lparr>minX = Finite 0, minY = Finite 0, maxX = Finite 1, maxY = Finite 1\<rparr>"

text \<open>
  A geometry built by the constructor with the attribute \<open>aPosition\<close> and the index
  buffer on the same Buffer 0.
\<close>

definition constructed_geometry :: world where
  "constructed_geometry =
     snd (Geometry (Some [(''aPosition'', Plain (IsBuffer 0))]) (Some (IsBuffer 0))
            None None 0 box [plain_buffer])"

text \<open>
  Events after a \<open>destroy\<close>: a resize notification from Buffer 0, an \<open>addIndex\<close> and a
  second \<open>destroy\<close>, which both throw; the same followed by a read of the bounds.
\<close>

definition later_run :: "later_call list" where
  "later_run = [Notification 0 BufferChange, CallAddIndex (NumberArray [0, 1, 2]), CallDestroy True]"

definition later_run_read :: "later_call list" where
  "later_run_read = later_run @ [CallBounds]"

section \<open>The blend functions of the two backends\<close>

text \<open>
  C1. For the color-dodge variant the scalar blend functions of the two backends are
  the same function of (base, blend): they agree on every pair of inputs, and for all
  finite inputs with blend different from 1 the value of both is base / (1 - blend).
\<close>

theorem colorDodge_backends_agree:
  "colorDodge_gl x y = colorDodge_gpu x y
   \<and> (blend \<noteq> 1 \<longrightarrow>
         colorDodge_gl (Finite base) (Finite blend) = colorDodge_gpu (Finite base) (Finite blend)
       \<and> colorDodge_gl (Finite base) (Finite blend) = Finite (base / (1 - blend))
       \<and> colorDodge_gpu (Finite base) (Finite blend) = Finite (base / (1 - blend)))"
  by (simp add: colorDodge_gl_def colorDodge_gpu_def sub_def)

theorem colorDodge_backends_agree_witness:
  "(1/4::real) \<noteq> 1
   \<and> colorDodge_gl (Finite (1/2)) (Finite (1/4)) = colorDodge_gpu (Finite (1/2)) (Finite (1/4))
   \<and> colorDodge_gl (Finite (1/2)) (Finite (1/4)) = Finite (2/3)
   \<and> colorDodge_gpu (Finite (1/2)) (Finite (1/4)) = Finite (2/3)"
  using colorDodge_backends_agree [of _ _ "1/4" "1/2"] by simp

text \<open>
  C7. In each backend the vector blend function applies the scalar function to the
  red, the green and the blue channel separately and mixes the result with the base
  colour as blended * opacity + base * (1 - opacity); the main fragment passes the rgb
  of the background, the rgb of the foreground and the alpha of the foreground as
  opacity, and writes the uniform \<open>uBlend\<close> as the alpha of the output. The last
  conjunct spells the result out for finite channels.
\<close>

theorem blendColorDodge_per_channel:
  "blendColorDodge_gl base blend opacity =
     vec3 (add (mul (colorDodge_gl (red base) (red blend)) opacity) (mul (red base) (sub (Finite 1) opacity)))
          (add (mul (colorDodge_gl (green base) (green blend)) opacity) (mul (green base) (sub (Finite 1) opacity)))
          (add (mul (colorDodge_gl (blue base) (blue blend)) opacity) (mul (blue base) (sub (Finite 1) opacity)))
   \<and> blendColorDodge_gpu base blend opacity =
     vec3 (add (mul (colorDodge_gpu (red base) (red blend)) opacity) (mul (red base) (sub (Finite 1) opacity)))
          (add (mul (colorDodge_gpu (green base) (green blend)) opacity) (mul (green base) (sub (Finite 1) opacity)))
          (add (mul (colorDodge_gpu (blue base) (blue blend)) opacity) (mul (blue base) (sub (Finite 1) opacity)))
   \<and> main_gl back front uBlend = vec4 (blendColorDodge_gl (rgb back) (rgb front) (alpha front)) uBlend
   \<and> main_gpu back front uBlend = vec4 (blendColorDodge_gpu (rgb back) (rgb front) (alpha front)) uBlend
   \<and> alpha (main_gl back front uBlend) = uBlend
   \<and> alpha (main_gpu back front uBlend) = uBlend
   \<and> (fr \<noteq> 1 \<and> fg \<noteq> 1 \<and> fb \<noteq> 1 \<longrightarrow>
        main_gl (vec4 (vec3 (Finite br) (Finite bg) (Finite bb)) ba)
                (vec4 (vec3 (Finite fr) (Finite fg) (Finite fb)) (Finite fa)) uBlend =
          vec4 (vec3 (Finite (br / (1 - fr) * fa + br * (1 - fa)))
                     (Finite (bg / (1 - fg) * fa + bg * (1 - fa)))
                     (Finite (bb / (1 - fb) * fa + bb * (1 - fa)))) uBlend
      \<and> main_gpu (vec4 (vec3 (Finite br) (Finite bg) (Finite bb)) ba)
                 (vec4 (vec3 (Finite fr) (Finite fg) (Finite fb)) (Finite fa)) uBlend =
          vec4 (vec3 (Finite (br / (1 - fr) * fa + br * (1 - fa)))
                     (Finite (bg / (1 - fg) * fa + bg * (1 - fa)))
                     (Finite (bb / (1 - fb) * fa + bb * (1 - fa)))) uBlend)"
  by (simp add: main_gl_def main_gpu_def blendColorDodge_gl_def blendColorDodge_gpu_def
      colorDodge_gl_def colorDodge_gpu_def vec3_plus_def vec3_times_def sub_def)

theorem blendColorDodge_per_channel_witness:
  "(1/4::real) \<noteq> 1 \<and> (0::real) \<noteq> 1 \<and> (1/2::real) \<noteq> 1
   \<and> main_gl (vec4 (vec3 (Finite (1/2)) (Finite (1/5)) (Finite 1)) (Finite 1))
              (vec4 (vec3 (Finite (1/4)) (Finite 0) (Finite (1/2))) (Finite (1/2))) (Finite (3/4)) =
        vec4 (vec3 (Finite (7/12)) (Finite (1/5)) (Finite (3/2))) (Finite (3/4))
   \<and> main_gpu (vec4 (vec3 (Finite (1/2)) (Finite (1/5)) (Finite 1)) (Finite 1))
              (vec4 (vec3 (Finite (1/4)) (Finite 0) (Finite (1/2))) (Finite (1/2))) (Finite (3/4)) =
        vec4 (vec3 (Finite (7/12)) (Finite (1/5)) (Finite (3/2))) (Finite (3/4))"
proof -
  have p: "(1/4::real) \<noteq> 1 \<and> (0::real) \<noteq> 1 \<and> (1/2::real) \<noteq> 1"
    by simp
  have "main_gl (vec4 (vec3 (Finite (1/2)) (Finite (1/5)) (Finite 1)) (Finite 1))
              (vec4 (vec3 (Finite (1/4)) (Finite 0) (Finite (1/2))) (Finite (1/2))) (Finite (3/4)) =
          vec4 (vec3 (Finite ((1/2) / (1 - 1/4) * (1/2) + (1/2) * (1 - 1/2)))
                     (Finite ((1/5) / (1 - 0) * (1/2) + (1/5) * (1 - 1/2)))
                     (Finite (1 / (1 - 1/2) * (1/2) + 1 * (1 - 1/2)))) (Finite (3/4))
      \<and> main_gpu (vec4 (vec3 (Finite (1/2)) (Finite (1/5)) (Finite 1)) (Finite 1))
              (vec4 (vec3 (Finite (1/4)) (Finite 0) (Finite (1/2))) (Finite (1/2))) (Finite (3/4)) =
          vec4 (vec3 (Finite ((1/2) / (1 - 1/4) * (1/2) + (1/2) * (1 - 1/2)))
                     (Finite ((1/5) / (1 - 0) * (1/2) + (1/5) * (1 - 1/2)))
                     (Finite (1 / (1 - 1/2) * (1/2) + 1 * (1 - 1/2)))) (Finite (3/4))"
    using p blendColorDodge_per_channel [where fr = "1/4" and fg = 0 and fb = "1/2"
        and br = "1/2" and bg = "1/5" and bb = 1 and ba = "Finite 1" and fa = "1/2"
        and uBlend = "Finite (3/4)"]
    by blast
  then show ?thesis by simp
qed

text \<open>
  C8. The scalar function divides without a guard. At blend = 1 the divisor 1 - blend
  is zero and both backends return the quotient by zero as it is: an infinity with the
  sign of base, or not-a-number for base = 0. The value is not finite and stays so in
  the channel the main fragment writes. For every finite blend other than 1 the result
  is the finite value base / (1 - blend).
\<close>

theorem colorDodge_unguarded:
  "colorDodge_gl (Finite base) (Finite 1) =
     (if base = 0 then NaN else if base < 0 then NegInfinity else PosInfinity)
   \<and> colorDodge_gpu (Finite base) (Finite 1) =
     (if base = 0 then NaN else if base < 0 then NegInfinity else PosInfinity)
   \<and> \<not> is_finite (colorDodge_gl (Finite base) (Finite 1))
   \<and> \<not> is_finite (colorDodge_gpu (Finite base) (Finite 1))
   \<and> \<not> is_finite (red (rgb (main_gl (vec4 (vec3 (Finite base) g b) a)
                                     (vec4 (vec3 (Finite 1) g' b') (Finite opacity)) uBlend)))
   \<and> \<not> is_finite (red (rgb (main_gpu (vec4 (vec3 (Finite base) g b) a)
                                      (vec4 (vec3 (Finite 1) g' b') (Finite opacity)) uBlend)))
   \<and> (blend \<noteq> 1 \<longrightarrow>
        colorDodge_gl (Finite base) (Finite blend) = Finite (base / (1 - blend))
      \<and> colorDodge_gpu (Finite base) (Finite blend) = Finite (base / (1 - blend)))"
  by (simp add: colorDodge_gl_def colorDodge_gpu_def sub_def blendColorDodge_gl_def blendColorDodge_gpu_def
      main_gl_def main_gpu_def vec3_plus_def vec3_times_def signed_infinity_def)

theorem colorDodge_unguarded_witness:
  "(0::real) \<noteq> 1
   \<and> colorDodge_gl (Finite (1/5)) (Finite 0) = Finite (1/5)
   \<and> colorDodge_gpu (Finite (1/5)) (Finite 0) = Finite (1/5)
   \<and> colorDodge_gl (Finite (1/5)) (Finite 1) = PosInfinity
   \<and> colorDodge_gpu (Finite (1/5)) (Finite 1) = PosInfinity"
  using colorDodge_unguarded [of "1/5" _ _ _ _ _ _ _ 0] by simp

section \<open>Geometry: construction and size\<close>

lemmas construct_simps =
  Geometry_def and_then_def addAttribute_def addIndex_def ensureIsAttribute_def
  ensureIsBuffer_def buffer_on_def described_def box_def plain_buffer_def Let_def

lemma sized_geometry_eq:
  "sized_geometry st sz xs =
     \<lparr>geo = \<lparr>topology = TriangleList, uid = 0,
              attributes = Some [(''aPosition'',
                 \<lparr>buffer = 0, format = None, stride = st, offset = None, instanced = None,
                  attr_size = sz, start = None, divisor = None\<rparr>)],
              buffers = Some [0], indexBuffer = None, priv_layoutKey = 0, instanceCount = 1,
              priv_bounds = Some box, priv_boundsDirty = True, listeners = []\<rparr>,
       heap = [\<lparr>data = xs, index = False,
                buffer_listeners = [(BufferUpdate, OnBufferUpdate), (BufferChange, OnBufferUpdate)]\<rparr>],
       calls = []\<rparr>"
  by (simp add: sized_geometry_def construct_simps)

text \<open>
  C4 (as the code has it). \<open>getSize\<close> returns 0 when the geometry has no attribute.
  Otherwise it reads only the first attribute in insertion order and returns the
  element count of its buffer divided by the per-vertex count, without rounding. The
  per-vertex count is a quarter of the stride when a stride other than zero is declared,
  and the declared size only when the stride is absent or zero. For \<open>aPosition\<close>
  backed by the eight numbers \<open>0,0, 0,100, 100,100, 100,0\<close> with size 2 and no stride
  the result is 4.
\<close>

theorem getSize_first_attribute:
  "(attributes (geo w) = Some [] \<longrightarrow> getSize w = Inr (Finite 0))
   \<and> (attributes (geo w) = Some ((i, a) # rest) \<longrightarrow>
        (\<forall>s. stride a = Some s \<and> s \<noteq> 0 \<longrightarrow>
           getSize w = Inr (Finite (real (length (data (heap w ! buffer a))) / (real s / 4))))
      \<and> (\<forall>z. (stride a = None \<or> stride a = Some 0) \<and> attr_size a = Some z \<and> z \<noteq> 0 \<longrightarrow>
           getSize w = Inr (Finite (real (length (data (heap w ! buffer a))) / real z))))
   \<and> getSize (sized_geometry None (Some 2) [0, 0, 0, 100, 100, 100, 100, 0]) = Inr (Finite 4)"
  by (auto simp: getSize_def to_number_def Let_def sized_geometry_eq)

theorem getSize_first_attribute_witness:
  "attributes (geo (sized_geometry (Some 16) (Some 2) [0, 0, 0, 100, 100, 100, 100, 0])) =
     Some ((''aPosition'', \<lparr>buffer = 0, format = None, stride = Some 16, offset = None,
             instanced = None, attr_size = Some 2, start = None, divisor = None\<rparr>) # [])
   \<and> getSize (sized_geometry (Some 16) (Some 2) [0, 0, 0, 100, 100, 100, 100, 0]) = Inr (Finite 2)
   \<and> attributes (geo (sized_geometry None (Some 2) [0, 0, 0])) =
     Some ((''aPosition'', \<lparr>buffer = 0, format = None, stride = None, offset = None,
             instanced = None, attr_size = Some 2, start = None, divisor = None\<rparr>) # [])
   \<and> getSize (sized_geometry None (Some 2) [0, 0, 0]) = Inr (Finite (3 / 2))
   \<and> attributes (geo empty_geometry) = Some []
   \<and> getSize empty_geometry = Inr (Finite 0)"
  using getSize_first_attribute [of "sized_geometry (Some 16) (Some 2) [0, 0, 0, 100, 100, 100, 100, 0]"
          "''aPosition''" "\<lparr>buffer = 0, format = None, stride = Some 16, offset = None,
             instanced = None, attr_size = Some 2, start = None, divisor = None\<rparr>" "[]"]
        getSize_first_attribute [of "sized_geometry None (Some 2) [0, 0, 0]"
          "''aPosition''" "\<lparr>buffer = 0, format = None, stride = None, offset = None,
             instanced = None, attr_size = Some 2, start = None, divisor = None\<rparr>" "[]"]
        getSize_first_attribute [of empty_geometry]
  by (simp add: sized_geometry_eq empty_geometry_def construct_simps)

text \<open>
  C4 as stated fails twice. With three elements and size 2 the method returns 3/2,
  not the floor 1. With stride 16 and size 2 over eight elements it divides by
  16/4 = 4 and returns 2, where the declared size would give 4.
\<close>

theorem getSize_counterexample:
  "getSize (sized_geometry None (Some 2) [0, 0, 0]) = Inr (Finite (3 / 2))
   \<and> getSize_spec (sized_geometry None (Some 2) [0, 0, 0]) = Some (Finite 1)
   \<and> getSize (sized_geometry (Some 16) (Some 2) [0, 0, 0, 100, 100, 100, 100, 0]) = Inr (Finite 2)
   \<and> getSize_spec (sized_geometry (Some 16) (Some 2) [0, 0, 0, 100, 100, 100, 100, 0]) = Some (Finite 4)"
  by (simp add: getSize_def getSize_spec_def to_number_def sized_geometry_eq)

section \<open>Geometry: buffers, attributes and subscriptions\<close>

subsection \<open>Normalisation\<close>

lemma ensureIsBuffer_IsBuffer: "ensureIsBuffer (IsBuffer r) idx h = (r, h)"
  by (simp add: ensureIsBuffer_def)

lemma ensureIsAttribute_buffer:
  "buffer (fst (ensureIsAttribute a h)) = fst (ensureIsBuffer (spec_buffer a) False h)"
  "snd (ensureIsAttribute a h) = snd (ensureIsBuffer (spec_buffer a) False h)"
  by (auto simp: ensureIsAttribute_def spec_buffer_def Let_def split: attribute_option.splits prod.splits)

lemma ensureIsAttribute_IsBuffer:
  "spec_buffer a = IsBuffer r \<Longrightarrow> buffer (fst (ensureIsAttribute a h)) = r \<and> snd (ensureIsAttribute a h) = h"
  by (simp add: ensureIsAttribute_buffer ensureIsBuffer_IsBuffer)

text \<open>Normalising never touches the listeners of a buffer, and a new buffer has none.\<close>

lemma ensureIsBuffer_listeners:
  "(r < length (snd (ensureIsBuffer b idx h)) \<and>
      (ev, OnBufferUpdate) \<in> set (buffer_listeners (snd (ensureIsBuffer b idx h) ! r)))
   = (r < length h \<and> (ev, OnBufferUpdate) \<in> set (buffer_listeners (h ! r)))"
  by (cases b) (auto simp: ensureIsBuffer_def nth_append less_Suc_eq)

subsection \<open>The two adding methods on a live geometry\<close>

lemma and_then_Inr: "fst r = Inr u \<Longrightarrow> and_then r f = f (snd r)"
  by (cases r) (auto simp: and_then_def)

lemma addAttribute_live:
  assumes "buffers (geo w) = Some bs" and "attributes (geo w) = Some as"
  shows "fst (addAttribute name a w) = Inr ()"
    and "buffers (geo (snd (addAttribute name a w))) =
           Some (if buffer (fst (ensureIsAttribute a (heap w))) \<in> set bs then bs
                 else bs @ [buffer (fst (ensureIsAttribute a (heap w)))])"
    and "attributes (geo (snd (addAttribute name a w))) =
           Some (AList.update name (fst (ensureIsAttribute a (heap w))) as)"
    and "priv_boundsDirty (geo (snd (addAttribute name a w))) = priv_boundsDirty (geo w)"
    and "priv_bounds (geo (snd (addAttribute name a w))) = priv_bounds (geo w)"
    and "listeners (geo (snd (addAttribute name a w))) = listeners (geo w)"
    and "indexBuffer (geo (snd (addAttribute name a w))) = indexBuffer (geo w)"
    and "calls (snd (addAttribute name a w)) = calls w"
  using assms by (auto simp: addAttribute_def Let_def split: prod.splits)

lemma addIndex_live:
  assumes "buffers (geo w) = Some bs"
  shows "fst (addIndex ib w) = Inr ()"
    and "buffers (geo (snd (addIndex ib w))) = Some (bs @ [fst (ensureIsBuffer ib True (heap w))])"
    and "indexBuffer (geo (snd (addIndex ib w))) = Some (fst (ensureIsBuffer ib True (heap w)))"
    and "attributes (geo (snd (addIndex ib w))) = attributes (geo w)"
    and "priv_boundsDirty (geo (snd (addIndex ib w))) = priv_boundsDirty (geo w)"
    and "priv_bounds (geo (snd (addIndex ib w))) = priv_bounds (geo w)"
    and "listeners (geo (snd (addIndex ib w))) = listeners (geo w)"
    and "calls (snd (addIndex ib w)) = calls w"
  using assms by (auto simp: addIndex_def Let_def split: prod.splits)

lemma addIndex_heap: "heap (snd (addIndex ib w)) = snd (ensureIsBuffer ib True (heap w))"
  by (auto simp: addIndex_def Let_def split: prod.splits option.splits)

lemma addIndex_subscribed: "subscribed r ev (snd (addIndex ib w)) = subscribed r ev w"
  unfolding subscribed_def addIndex_heap by (rule ensureIsBuffer_listeners)

subsection \<open>Subscriptions\<close>

lemma buffer_on_length: "length (buffer_on r ev l h) = length h"
  by (simp add: buffer_on_def)

lemma buffer_on_other: "r' \<noteq> r \<Longrightarrow> buffer_on r ev l h ! r' = h ! r'"
  by (simp add: buffer_on_def)

lemma addAttribute_heap:
  "heap (snd (addAttribute name a w)) =
     (let t = buffer (fst (ensureIsAttribute a (heap w)));
          h = snd (ensureIsAttribute a (heap w))
      in case buffers (geo w) of
           None \<Rightarrow> h
         | Some bs \<Rightarrow>
            if t \<in> set bs then h
            else buffer_on t BufferChange OnBufferUpdate (buffer_on t BufferUpdate OnBufferUpdate h))"
  by (auto simp: addAttribute_def Let_def split: prod.splits option.splits)

lemma addAttribute_other_subscribed:
  assumes "buffer (fst (ensureIsAttribute a (heap w))) \<noteq> r"
  shows "subscribed r ev (snd (addAttribute name a w)) = subscribed r ev w"
  using assms ensureIsBuffer_listeners [of r "spec_buffer a" False "heap w" ev]
  by (auto simp: subscribed_def addAttribute_heap Let_def buffer_on_length buffer_on_other
        ensureIsAttribute_buffer split: option.splits)

lemma addAttribute_subscribes:
  assumes "buffers (geo w) = Some bs"
    and "buffer (fst (ensureIsAttribute a (heap w))) = t" and "t \<notin> set bs"
    and "t < length (snd (ensureIsAttribute a (heap w)))"
  shows "subscribed t BufferUpdate (snd (addAttribute name a w))"
    and "subscribed t BufferChange (snd (addAttribute name a w))"
  using assms
  by (auto simp: subscribed_def addAttribute_heap Let_def buffer_on_length buffer_on_def)

subsection \<open>Delivering a notification\<close>

lemma invoke_keeps_dirty:
  "priv_boundsDirty (geo w) \<Longrightarrow> priv_boundsDirty (geo (invoke l ev w))"
  by (cases l) (simp_all add: onBufferUpdate_def emit_def)

lemma fold_invoke_dirty:
  "priv_boundsDirty (geo w) \<or> OnBufferUpdate \<in> set ls \<Longrightarrow>
     priv_boundsDirty (geo (fold (\<lambda>l. invoke l ev) ls w))"
proof (induction ls arbitrary: w)
  case Nil
  then show ?case by simp
next
  case (Cons l ls)
  have "priv_boundsDirty (geo (invoke l ev w)) \<or> OnBufferUpdate \<in> set ls"
    using Cons.prems by (cases l) (auto simp: onBufferUpdate_def emit_def)
  then show ?case using Cons.IH by simp
qed

lemma fold_invoke_others:
  "OnBufferUpdate \<notin> set ls \<Longrightarrow>
     geo (fold (\<lambda>l. invoke l ev) ls w) = geo w
   \<and> heap (fold (\<lambda>l. invoke l ev) ls w) = heap w
   \<and> filter is_notification (calls (fold (\<lambda>l. invoke l ev) ls w)) = filter is_notification (calls w)"
proof (induction ls arbitrary: w)
  case Nil
  then show ?case by simp
next
  case (Cons l ls)
  then obtain cb where l: "l = OtherListener cb" by (cases l) auto
  show ?case using Cons.IH [of "invoke l ev w"] Cons.prems by (simp add: l)
qed

lemma subscribed_listed:
  "subscribed r ev w \<Longrightarrow>
     OnBufferUpdate \<in> set (map snd (filter (\<lambda>p. fst p = ev) (buffer_listeners (heap w ! r))))"
  by (force simp: subscribed_def)

lemma unsubscribed_listed:
  "\<not> subscribed r ev w \<Longrightarrow> r < length (heap w) \<Longrightarrow>
     OnBufferUpdate \<notin> set (map snd (filter (\<lambda>p. fst p = ev) (buffer_listeners (heap w ! r))))"
  by (auto simp: subscribed_def)

lemma buffer_emit_subscribed:
  "subscribed r ev w \<Longrightarrow> priv_boundsDirty (geo (buffer_emit r ev w))"
  using subscribed_listed [of r ev w] by (simp add: buffer_emit_def fold_invoke_dirty)

lemma buffer_emit_unsubscribed:
  assumes "\<not> subscribed r ev w" and "r < length (heap w)"
  shows "geo (buffer_emit r ev w) = geo w"
    and "heap (buffer_emit r ev w) = heap w"
    and "filter is_notification (calls (buffer_emit r ev w)) = filter is_notification (calls w)"
  using fold_invoke_others [OF unsubscribed_listed [OF assms]]
  by (simp_all add: buffer_emit_def)

lemma and_then_snd:
  "snd (and_then r f) = (case fst r of Inl e \<Rightarrow> snd r | Inr u \<Rightarrow> snd (f (snd r)))"
  by (cases r) (auto simp: and_then_def split: sum.splits)

lemma perform_unsubscribed:
  assumes "\<forall>ev. \<not> subscribed r ev w" and "r \<notin> set (attribute_targets cs w)"
  shows "\<not> subscribed r ev (snd (perform cs w))"
  using assms
proof (induction cs arbitrary: w)
  case Nil
  then show ?case by simp
next
  case (Cons c cs)
  show ?case
  proof (cases c)
    case (AddAttribute name a)
    let ?w = "snd (addAttribute name a w)"
    have t: "buffer (fst (ensureIsAttribute a (heap w))) \<noteq> r"
      and rest: "r \<notin> set (attribute_targets cs ?w)"
      using Cons.prems(2) AddAttribute by auto
    have un: "\<forall>ev. \<not> subscribed r ev ?w"
      using Cons.prems(1) addAttribute_other_subscribed [OF t] by simp
    show ?thesis
      using Cons.IH [OF un rest] un
      by (simp add: AddAttribute and_then_snd split: sum.splits)
  next
    case (AddIndex ib)
    let ?w = "snd (addIndex ib w)"
    have rest: "r \<notin> set (attribute_targets cs ?w)"
      using Cons.prems(2) AddIndex by simp
    have un: "\<forall>ev. \<not> subscribed r ev ?w"
      using Cons.prems(1) by (simp add: addIndex_subscribed)
    show ?thesis
      using Cons.IH [OF un rest] un
      by (simp add: AddIndex and_then_snd split: sum.splits)
  qed
qed

lemmas example_simps =
  empty_geometry_def on_def index_run_def indexed_geometry_def
  attribute_and_index_def index_then_attribute_def watched_geometry_def
  unread_geometry_def listened_geometry_def
  bounds_def getGeometryBounds_def getAttribute_def unit_calc_def
  emit_def removeAllListeners_def onBufferUpdate_def buffer_emit_def destroy_def

text \<open>
  C10. \<open>addIndex\<close> never subscribes the geometry: it leaves the subscription state of
  every buffer as it was. So take a buffer the geometry is not subscribed to and any
  run of \<open>addIndex\<close> and \<open>addAttribute\<close> calls in which no \<open>addAttribute\<close> resolves to
  that buffer (it is added through \<open>addIndex\<close> only): afterwards the geometry is still
  not subscribed, and a content or resize notification from the buffer leaves the
  geometry, its dirty flag included, unchanged and notifies none of its listeners.
  \<open>addIndex\<close> does not look for the buffer in \<open>buffers\<close> either: given a Buffer, it
  appends it, so one already present gets one more entry.
\<close>

theorem addIndex_never_subscribes:
  "subscribed r' ev (snd (addIndex ib w)) = subscribed r' ev w
   \<and> ((\<forall>e. \<not> subscribed r e w) \<and> r \<notin> set (attribute_targets cs w)
        \<and> r < length (heap (snd (perform cs w))) \<longrightarrow>
         \<not> subscribed r ev (snd (perform cs w))
       \<and> geo (buffer_emit r ev (snd (perform cs w))) = geo (snd (perform cs w))
       \<and> priv_boundsDirty (geo (buffer_emit r ev (snd (perform cs w)))) =
           priv_boundsDirty (geo (snd (perform cs w)))
       \<and> filter is_notification (calls (buffer_emit r ev (snd (perform cs w)))) =
           filter is_notification (calls (snd (perform cs w))))
   \<and> (buffers (geo w) = Some bs \<longrightarrow>
         fst (addIndex (IsBuffer r) w) = Inr ()
       \<and> buffers (geo (snd (addIndex (IsBuffer r) w))) = Some (bs @ [r])
       \<and> count_list (bs @ [r]) r = count_list bs r + 1)"
proof (intro conjI impI)
  show "subscribed r' ev (snd (addIndex ib w)) = subscribed r' ev w"
    by (rule addIndex_subscribed)
next
  assume a: "(\<forall>e. \<not> subscribed r e w) \<and> r \<notin> set (attribute_targets cs w)
        \<and> r < length (heap (snd (perform cs w)))"
  let ?w = "snd (perform cs w)"
  show un: "\<not> subscribed r ev ?w"
    using a perform_unsubscribed by blast
  have len: "r < length (heap ?w)" using a by simp
  show g: "geo (buffer_emit r ev ?w) = geo ?w"
    using buffer_emit_unsubscribed(1) [OF un len] .
  show "priv_boundsDirty (geo (buffer_emit r ev ?w)) = priv_boundsDirty (geo ?w)"
    by (simp only: g)
  show "filter is_notification (calls (buffer_emit r ev ?w)) = filter is_notification (calls ?w)"
    using buffer_emit_unsubscribed(3) [OF un len] .
next
  assume b: "buffers (geo w) = Some bs"
  show "fst (addIndex (IsBuffer r) w) = Inr ()"
    using addIndex_live(1) [OF b] .
  show "buffers (geo (snd (addIndex (IsBuffer r) w))) = Some (bs @ [r])"
    using addIndex_live(2) [OF b, of "IsBuffer r"] by (simp add: ensureIsBuffer_IsBuffer)
  show "count_list (bs @ [r]) r = count_list bs r + 1"
    by simp
qed

theorem addIndex_never_subscribes_witness:
  "\<not> subscribed 0 BufferUpdate indexed_geometry
   \<and> \<not> subscribed 0 BufferChange indexed_geometry
   \<and> 0 \<notin> set (attribute_targets index_run indexed_geometry)
   \<and> 0 < length (heap (snd (perform index_run indexed_geometry)))
   \<and> buffers (geo indexed_geometry) = Some [0]
   \<and> buffers (geo (snd (perform index_run indexed_geometry))) = Some [0, 0, 1]
   \<and> listeners (geo (snd (perform index_run indexed_geometry))) = [(Update, 7)]
   \<and> geo (buffer_emit 0 BufferChange (snd (perform index_run indexed_geometry))) =
       geo (snd (perform index_run indexed_geometry))
   \<and> filter is_notification (calls (buffer_emit 0 BufferChange (snd (perform index_run indexed_geometry)))) =
       filter is_notification (calls (snd (perform index_run indexed_geometry)))
   \<and> buffers (geo (snd (addIndex (IsBuffer 0) indexed_geometry))) = Some [0, 0]"
proof -
  have h: "(\<forall>e. \<not> subscribed 0 e indexed_geometry)
      \<and> 0 \<notin> set (attribute_targets index_run indexed_geometry)
      \<and> 0 < length (heap (snd (perform index_run indexed_geometry)))"
    by (simp add: subscribed_def example_simps construct_simps)
  have b: "buffers (geo indexed_geometry) = Some [0]"
    by (simp add: example_simps construct_simps)
  have p: "buffers (geo (snd (perform index_run indexed_geometry))) = Some [0, 0, 1]
      \<and> listeners (geo (snd (perform index_run indexed_geometry))) = [(Update, 7)]"
    by (simp add: example_simps construct_simps)
  show ?thesis
    using h b p
      addIndex_never_subscribes [of 0 BufferChange "IsBuffer 0" indexed_geometry 0 index_run "[0]"]
    by simp
qed

lemma addAttributes_same_buffer:
  assumes "buffers (geo w) = Some bs" and "attributes (geo w) = Some as"
    and "\<forall>p \<in> set specs. spec_buffer (snd p) = IsBuffer r"
  shows "fst (addAttributes specs w) = Inr () \<and>
         buffers (geo (snd (addAttributes specs w))) =
           Some (if specs = [] \<or> r \<in> set bs then bs else bs @ [r])"
  using assms
proof (induction specs arbitrary: w bs as)
  case Nil
  then show ?case by simp
next
  case (Cons p specs)
  obtain name a where p: "p = (name, a)" by (cases p)
  let ?w = "snd (addAttribute name a w)"
  have r: "buffer (fst (ensureIsAttribute a (heap w))) = r"
    using Cons.prems(3) p by (simp add: ensureIsAttribute_IsBuffer)
  have ok: "fst (addAttribute name a w) = Inr ()"
    using addAttribute_live(1) [OF Cons.prems(1,2)] .
  have bs': "buffers (geo ?w) = Some (if r \<in> set bs then bs else bs @ [r])"
    using addAttribute_live(2) [OF Cons.prems(1,2), of name a] r by simp
  have as': "attributes (geo ?w) = Some (AList.update name (fst (ensureIsAttribute a (heap w))) as)"
    using addAttribute_live(3) [OF Cons.prems(1,2)] .
  have rest: "\<forall>p \<in> set specs. spec_buffer (snd p) = IsBuffer r"
    using Cons.prems(3) by simp
  have step: "addAttributes (p # specs) w = addAttributes specs ?w"
    using ok by (simp add: p and_then_Inr)
  show ?case
    using Cons.IH [OF bs' as' rest] by (auto simp: step)
qed

text \<open>
  C3 (as the code has it). Take a live geometry whose \<open>buffers\<close> holds a Buffer at
  most once. Calling \<open>addAttribute\<close> one or more times, under any names, with
  attribute options that all resolve to that Buffer succeeds and leaves the Buffer in
  \<open>buffers\<close> exactly once.
\<close>

theorem addAttribute_one_entry:
  assumes "buffers (geo w) = Some bs" and "attributes (geo w) = Some as"
    and "count_list bs r \<le> 1"
    and "specs \<noteq> []"
    and "\<forall>p \<in> set specs. spec_buffer (snd p) = IsBuffer r"
  shows "fst (addAttributes specs w) = Inr () \<and>
         (\<exists>bs'. buffers (geo (snd (addAttributes specs w))) = Some bs' \<and> count_list bs' r = 1)"
proof -
  have "r \<in> set bs \<Longrightarrow> count_list bs r = 1"
    using assms(3) count_list_0_iff [of bs r] by linarith
  moreover have "r \<notin> set bs \<Longrightarrow> count_list (bs @ [r]) r = 1"
    by (simp add: count_list_0_iff)
  ultimately show ?thesis
    using addAttributes_same_buffer [OF assms(1,2,5)] assms(4) by auto
qed

theorem addAttribute_one_entry_witness:
  "buffers (geo empty_geometry) = Some []
   \<and> attributes (geo empty_geometry) = Some []
   \<and> count_list [] (0::nat) \<le> 1
   \<and> [(''aPosition'', Plain (IsBuffer 0)), (''aUv'', described (IsBuffer 0) None (Some 2))] \<noteq> []
   \<and> spec_buffer (Plain (IsBuffer 0)) = IsBuffer 0
   \<and> spec_buffer (described (IsBuffer 0) None (Some 2)) = IsBuffer 0
   \<and> fst (addAttributes [(''aPosition'', Plain (IsBuffer 0)),
                          (''aUv'', described (IsBuffer 0) None (Some 2))] empty_geometry) = Inr ()
   \<and> buffers (geo (snd (addAttributes [(''aPosition'', Plain (IsBuffer 0)),
                          (''aUv'', described (IsBuffer 0) None (Some 2))] empty_geometry))) = Some [0]
   \<and> count_list [0] (0::nat) = 1"
proof -
  have b: "buffers (geo empty_geometry) = Some []"
    and a: "attributes (geo empty_geometry) = Some []"
    by (simp_all add: example_simps construct_simps)
  have c: "count_list [] (0::nat) \<le> 1" by simp
  have n: "[(''aPosition'', Plain (IsBuffer 0)), (''aUv'', described (IsBuffer 0) None (Some 2))] \<noteq> []"
    by simp
  have s: "spec_buffer (Plain (IsBuffer 0)) = IsBuffer 0
      \<and> spec_buffer (described (IsBuffer 0) None (Some 2)) = IsBuffer 0"
    by (simp add: spec_buffer_def described_def)
  then have q: "\<forall>p \<in> set [(''aPosition'', Plain (IsBuffer 0)),
                  (''aUv'', described (IsBuffer 0) None (Some 2))]. spec_buffer (snd p) = IsBuffer 0"
    by simp
  have v: "buffers (geo (snd (addAttributes [(''aPosition'', Plain (IsBuffer 0)),
                          (''aUv'', described (IsBuffer 0) None (Some 2))] empty_geometry))) = Some [0]"
    by (simp add: example_simps construct_simps)
  show ?thesis
    using addAttribute_one_entry [OF b a c n q] b a s v by simp
qed

text \<open>
  C3 as stated, for every geometry, fails: a Buffer given to \<open>addAttribute\<close> and then
  to \<open>addIndex\<close> is in \<open>buffers\<close> twice, and adding it under two attribute names
  leaves both entries. On a destroyed geometry the calls throw.
\<close>

theorem addAttribute_one_entry_counterexample:
  "buffers (geo attribute_and_index) = Some [0, 0]
   \<and> spec_buffer (Plain (IsBuffer 0)) = IsBuffer 0
   \<and> fst (addAttributes [(''aPosition'', Plain (IsBuffer 0)), (''aUv'', Plain (IsBuffer 0))]
            attribute_and_index) = Inr ()
   \<and> buffers (geo (snd (addAttributes [(''aPosition'', Plain (IsBuffer 0)), (''aUv'', Plain (IsBuffer 0))]
            attribute_and_index))) = Some [0, 0]
   \<and> count_list [0, 0] (0::nat) = 2
   \<and> fst (addAttributes [(''aPosition'', Plain (IsBuffer 0)), (''aUv'', Plain (IsBuffer 0))]
            (snd (destroy False empty_geometry))) = Inl TypeError"
  by (simp add: example_simps construct_simps spec_buffer_def)

text \<open>
  C9. Replacing an entry removes nothing from \<open>buffers\<close>. On a live geometry,
  \<open>addAttribute\<close> with a name already present succeeds and overwrites the attribute
  (the names stay as they were), the old \<open>buffers\<close> is a prefix of the new one, and
  the buffer of the old attribute is still there, whether or not another attribute
  refers to it. \<open>addIndex\<close> sets \<open>indexBuffer\<close> to the new buffer and appends it, so
  an earlier index buffer stays in \<open>buffers\<close>.
\<close>

theorem replacing_keeps_buffers:
  assumes "buffers (geo w) = Some bs" and "attributes (geo w) = Some as"
  shows "(map_of as name = Some old \<longrightarrow>
            fst (addAttribute name a w) = Inr ()
          \<and> (\<exists>as' bs'. attributes (geo (snd (addAttribute name a w))) = Some as'
                \<and> map_of as' name = Some (fst (ensureIsAttribute a (heap w)))
                \<and> map fst as' = map fst as
                \<and> buffers (geo (snd (addAttribute name a w))) = Some bs'
                \<and> prefix bs bs'
                \<and> (buffer old \<in> set bs \<longrightarrow> buffer old \<in> set bs')))
       \<and> fst (addIndex ib w) = Inr ()
       \<and> indexBuffer (geo (snd (addIndex ib w))) = Some (fst (ensureIsBuffer ib True (heap w)))
       \<and> buffers (geo (snd (addIndex ib w))) = Some (bs @ [fst (ensureIsBuffer ib True (heap w))])
       \<and> (indexBuffer (geo w) = Some old_index \<and> old_index \<in> set bs \<longrightarrow>
            old_index \<in> set (bs @ [fst (ensureIsBuffer ib True (heap w))]))"
proof (intro conjI impI)
  assume old: "map_of as name = Some old"
  show "fst (addAttribute name a w) = Inr ()"
    using addAttribute_live(1) [OF assms] .
  let ?att = "fst (ensureIsAttribute a (heap w))"
  let ?bs = "if buffer ?att \<in> set bs then bs else bs @ [buffer ?att]"
  have key: "name \<in> fst ` set as"
    using old by (rule map_of_SomeD [THEN imageI, of as name old fst, simplified])
  have "attributes (geo (snd (addAttribute name a w))) = Some (AList.update name ?att as)"
    using addAttribute_live(3) [OF assms] .
  moreover have "map_of (AList.update name ?att as) name = Some ?att"
    by (simp add: update_conv')
  moreover have "map fst (AList.update name ?att as) = map fst as"
    using key by (simp add: update_keys)
  moreover have "buffers (geo (snd (addAttribute name a w))) = Some ?bs"
    using addAttribute_live(2) [OF assms] .
  moreover have "prefix bs ?bs" by simp
  moreover have "buffer old \<in> set bs \<longrightarrow> buffer old \<in> set ?bs" by simp
  ultimately show "\<exists>as' bs'. attributes (geo (snd (addAttribute name a w))) = Some as'
                \<and> map_of as' name = Some ?att
                \<and> map fst as' = map fst as
                \<and> buffers (geo (snd (addAttribute name a w))) = Some bs'
                \<and> prefix bs bs'
                \<and> (buffer old \<in> set bs \<longrightarrow> buffer old \<in> set bs')"
    by blast
next
  show "fst (addIndex ib w) = Inr ()"
    using addIndex_live(1) [OF assms(1)] .
  show "indexBuffer (geo (snd (addIndex ib w))) = Some (fst (ensureIsBuffer ib True (heap w)))"
    using addIndex_live(3) [OF assms(1)] .
  show "buffers (geo (snd (addIndex ib w))) = Some (bs @ [fst (ensureIsBuffer ib True (heap w))])"
    using addIndex_live(2) [OF assms(1)] .
next
  assume "indexBuffer (geo w) = Some old_index \<and> old_index \<in> set bs"
  then show "old_index \<in> set (bs @ [fst (ensureIsBuffer ib True (heap w))])" by simp
qed

theorem replacing_keeps_buffers_witness:
  "buffers (geo complete_geometry) = Some [0, 1]
   \<and> attributes (geo complete_geometry) =
       Some [(''aPosition'', \<lparr>buffer = 0, format = None, stride = None, offset = None,
               instanced = None, attr_size = Some 2, start = None, divisor = None\<rparr>)]
   \<and> indexBuffer (geo complete_geometry) = Some 1
   \<and> attributes (geo (snd (addAttribute ''aPosition'' (Plain (NumberArray [5, 6])) complete_geometry))) =
       Some [(''aPosition'', \<lparr>buffer = 2, format = None, stride = None, offset = None,
               instanced = None, attr_size = None, start = None, divisor = None\<rparr>)]
   \<and> buffers (geo (snd (addAttribute ''aPosition'' (Plain (NumberArray [5, 6])) complete_geometry))) =
       Some [0, 1, 2]
   \<and> indexBuffer (geo (snd (addIndex (NumberArray [0, 2, 1]) complete_geometry))) = Some 2
   \<and> buffers (geo (snd (addIndex (NumberArray [0, 2, 1]) complete_geometry))) = Some [0, 1, 2]"
proof -
  have b: "buffers (geo complete_geometry) = Some [0, 1]"
    and a: "attributes (geo complete_geometry) =
       Some [(''aPosition'', \<lparr>buffer = 0, format = None, stride = None, offset = None,
               instanced = None, attr_size = Some 2, start = None, divisor = None\<rparr>)]"
    and i: "indexBuffer (geo complete_geometry) = Some 1"
    and h: "heap complete_geometry =
       [\<lparr>data = [0, 0, 0, 100, 100, 100], index = False,
          buffer_listeners = [(BufferUpdate, OnBufferUpdate), (BufferChange, OnBufferUpdate)]\<rparr>,
        \<lparr>data = [0, 1, 2], index = True, buffer_listeners = []\<rparr>]"
    by (simp_all add: complete_geometry_def sized_geometry_eq addIndex_def ensureIsBuffer_def)
  have e: "ensureIsAttribute (Plain (NumberArray [5, 6])) (heap complete_geometry) =
       (\<lparr>buffer = 2, format = None, stride = None, offset = None,
               instanced = None, attr_size = None, start = None, divisor = None\<rparr>,
        heap complete_geometry @ [\<lparr>data = [5, 6], index = False, buffer_listeners = []\<rparr>])"
    and f: "ensureIsBuffer (NumberArray [0, 2, 1]) True (heap complete_geometry) =
       (2, heap complete_geometry @ [\<lparr>data = [0, 2, 1], index = True, buffer_listeners = []\<rparr>])"
    by (simp_all add: h ensureIsAttribute_def ensureIsBuffer_def)
  show ?thesis
    using replacing_keeps_buffers [OF b a, of "''aPosition''"
        "\<lparr>buffer = 0, format = None, stride = None, offset = None,
               instanced = None, attr_size = Some 2, start = None, divisor = None\<rparr>"
        "Plain (NumberArray [5, 6])" "NumberArray [0, 2, 1]" 1]
      addAttribute_live(3) [OF b a, of "''aPosition''" "Plain (NumberArray [5, 6])"]
      addAttribute_live(2) [OF b a, of "''aPosition''" "Plain (NumberArray [5, 6])"]
    by (simp add: b a i e f)
qed

section \<open>Geometry: the bounds cache\<close>

lemma addAttributes_live:
  assumes "buffers (geo w) = Some bs" and "attributes (geo w) = Some as"
  shows "fst (addAttributes specs w) = Inr ()
       \<and> buffers (geo (snd (addAttributes specs w))) \<noteq> None
       \<and> attributes (geo (snd (addAttributes specs w))) \<noteq> None
       \<and> priv_boundsDirty (geo (snd (addAttributes specs w))) = priv_boundsDirty (geo w)"
  using assms
proof (induction specs arbitrary: w bs as)
  case Nil
  then show ?case by simp
next
  case (Cons p specs)
  obtain name a where p: "p = (name, a)" by (cases p)
  let ?w = "snd (addAttribute name a w)"
  note live = addAttribute_live [OF Cons.prems, of name a]
  have step: "addAttributes (p # specs) w = addAttributes specs ?w"
    using live(1) by (simp add: p and_then_Inr)
  show ?case
    using Cons.IH [OF live(2) live(3)] live(4) by (simp add: step)
qed

lemma Geometry_dirty:
  "fst (Geometry attrs ib topo count u b0 h) = Inr ()
   \<and> priv_boundsDirty (geo (snd (Geometry attrs ib topo count u b0 h)))"
proof -
  define w0 where "w0 = \<lparr>geo = \<lparr>topology = TriangleList, uid = u, attributes = Some [],
                       buffers = Some [], indexBuffer = None, priv_layoutKey = 0,
                       instanceCount = 1, priv_bounds = Some b0,
                       priv_boundsDirty = True, listeners = []\<rparr>,
                heap = h, calls = []\<rparr>"
  define r1 where "r1 = (case attrs of None \<Rightarrow> (Inr (), w0) | Some l \<Rightarrow> addAttributes l w0)"
  define f2 where "f2 = (\<lambda>w::world. (Inr () :: error + unit, w\<lparr>geo := (geo w)\<lparr>instanceCount :=
                                     (case count of None \<Rightarrow> 1 | Some n \<Rightarrow> n)\<rparr>\<rparr>))"
  define f3 where "f3 = (\<lambda>w::world. case ib of None \<Rightarrow> (Inr (), w) | Some b \<Rightarrow> addIndex b w)"
  define f4 where "f4 = (\<lambda>w::world. (Inr () :: error + unit, w\<lparr>geo := (geo w)\<lparr>topology :=
                               (case topo of None \<Rightarrow> TriangleList | Some t \<Rightarrow> t)\<rparr>\<rparr>))"
  have G: "Geometry attrs ib topo count u b0 h = and_then (and_then (and_then r1 f2) f3) f4"
    unfolding Geometry_def Let_def w0_def r1_def f2_def f3_def f4_def ..
  have w0: "buffers (geo w0) = Some []" "attributes (geo w0) = Some []" "priv_boundsDirty (geo w0)"
    by (simp_all add: w0_def)
  have r1: "fst r1 = Inr () \<and> buffers (geo (snd r1)) \<noteq> None \<and> priv_boundsDirty (geo (snd r1))"
  proof (cases attrs)
    case None
    then show ?thesis using w0 by (simp add: r1_def)
  next
    case (Some l)
    show ?thesis
      using addAttributes_live [OF w0(1,2), of l] w0(3) by (simp add: r1_def Some)
  qed
  have s2: "and_then r1 f2 = f2 (snd r1)"
    using r1 by (simp add: and_then_Inr)
  have r2: "fst (f2 (snd r1)) = Inr () \<and> buffers (geo (snd (f2 (snd r1)))) \<noteq> None
      \<and> priv_boundsDirty (geo (snd (f2 (snd r1))))"
    using r1 by (simp add: f2_def)
  have s3: "and_then (f2 (snd r1)) f3 = f3 (snd (f2 (snd r1)))"
    using r2 by (simp add: and_then_Inr)
  have r3: "fst (f3 (snd (f2 (snd r1)))) = Inr () \<and> priv_boundsDirty (geo (snd (f3 (snd (f2 (snd r1))))))"
  proof (cases ib)
    case None
    then show ?thesis using r2 by (simp add: f3_def)
  next
    case (Some b)
    obtain bs where bs: "buffers (geo (snd (f2 (snd r1)))) = Some bs"
      using r2 by auto
    show ?thesis
      using addIndex_live(1,5) [OF bs, of b] r2 by (simp add: f3_def Some)
  qed
  have s4: "and_then (f3 (snd (f2 (snd r1)))) f4 = f4 (snd (f3 (snd (f2 (snd r1)))))"
    using r3 by (simp add: and_then_Inr)
  show ?thesis
    using r3 by (simp add: G s2 s3 s4) (simp add: f4_def)
qed

lemma bounds_dirty:
  assumes "priv_boundsDirty (geo w)" and "attributes (geo w) = Some as"
    and "priv_bounds (geo w) = Some b"
  shows "bounds calc w =
           (Inr (Some (calc (map_of as ''aPosition'') (heap w) b)),
            w\<lparr>geo := (geo w)\<lparr>priv_boundsDirty := False,
                              priv_bounds := Some (calc (map_of as ''aPosition'') (heap w) b)\<rparr>,
              calls := calls w @ [GetGeometryBoundsCalled]\<rparr>)"
  using assms by (simp add: bounds_def getGeometryBounds_def getAttribute_def Let_def)

lemma bounds_clean:
  "\<not> priv_boundsDirty (geo w) \<Longrightarrow> bounds calc w = (Inr (priv_bounds (geo w)), w)"
  by (simp add: bounds_def)

lemma listened_geometry_eq:
  "listened_geometry =
     \<lparr>geo = \<lparr>topology = TriangleList, uid = 0, attributes = Some [], buffers = Some [],
              indexBuffer = None, priv_layoutKey = 0, instanceCount = 1,
              priv_bounds = Some box, priv_boundsDirty = True,
              listeners = [(Update, 7), (Destroy, 8)]\<rparr>,
       heap = [plain_buffer], calls = []\<rparr>"
  by (simp add: listened_geometry_def empty_geometry_def on_def Geometry_def and_then_def)

lemma unread_geometry_eq:
  "unread_geometry =
     \<lparr>geo = \<lparr>topology = TriangleList, uid = 0,
              attributes = Some [(''aPosition'', position0)], buffers = Some [0],
              indexBuffer = None, priv_layoutKey = 0, instanceCount = 1,
              priv_bounds = Some box, priv_boundsDirty = True,
              listeners = [(Update, 7), (Destroy, 8)]\<rparr>,
       heap = [\<lparr>data = [0, 0, 0, 100, 100, 100, 100, 0], index = False,
                buffer_listeners = [(BufferUpdate, OnBufferUpdate), (BufferChange, OnBufferUpdate)]\<rparr>],
       calls = []\<rparr>"
  by (simp add: unread_geometry_def listened_geometry_eq position0_def addAttribute_def
      ensureIsAttribute_def ensureIsBuffer_def buffer_on_def plain_buffer_def)

lemma watched_geometry_eq:
  "watched_geometry =
     \<lparr>geo = \<lparr>topology = TriangleList, uid = 0,
              attributes = Some [(''aPosition'', position0)], buffers = Some [0],
              indexBuffer = None, priv_layoutKey = 0, instanceCount = 1,
              priv_bounds = Some unit_square, priv_boundsDirty = False,
              listeners = [(Update, 7), (Destroy, 8)]\<rparr>,
       heap = [\<lparr>data = [0, 0, 0, 100, 100, 100, 100, 0], index = False,
                buffer_listeners = [(BufferUpdate, OnBufferUpdate), (BufferChange, OnBufferUpdate)]\<rparr>],
       calls = [GetGeometryBoundsCalled]\<rparr>"
  by (simp add: watched_geometry_def unread_geometry_eq bounds_def getGeometryBounds_def
      getAttribute_def unit_calc_def unit_square_def Let_def)

subsection \<open>Subscriptions persist\<close>

lemma buffer_on_keeps:
  "r < length h \<and> x \<in> set (buffer_listeners (h ! r)) \<Longrightarrow>
     r < length (buffer_on t ev l h) \<and> x \<in> set (buffer_listeners (buffer_on t ev l h ! r))"
  by (cases "r = t") (auto simp: buffer_on_def)

lemma ensureIsAttribute_keeps:
  "(r < length (snd (ensureIsAttribute a h)) \<and>
      (ev, OnBufferUpdate) \<in> set (buffer_listeners (snd (ensureIsAttribute a h) ! r)))
   = (r < length h \<and> (ev, OnBufferUpdate) \<in> set (buffer_listeners (h ! r)))"
  by (simp only: ensureIsAttribute_buffer ensureIsBuffer_listeners)

lemma addAttribute_keeps_subscribed:
  assumes "subscribed r ev w"
  shows "subscribed r ev (snd (addAttribute name a w))"
proof -
  let ?t = "buffer (fst (ensureIsAttribute a (heap w)))"
  let ?h = "snd (ensureIsAttribute a (heap w))"
  have h: "r < length ?h \<and> (ev, OnBufferUpdate) \<in> set (buffer_listeners (?h ! r))"
    using assms by (simp only: ensureIsAttribute_keeps subscribed_def)
  have on2: "r < length (buffer_on ?t BufferChange OnBufferUpdate (buffer_on ?t BufferUpdate OnBufferUpdate ?h))
      \<and> (ev, OnBufferUpdate) \<in> set (buffer_listeners
            (buffer_on ?t BufferChange OnBufferUpdate (buffer_on ?t BufferUpdate OnBufferUpdate ?h) ! r))"
    by (intro buffer_on_keeps h)
  show ?thesis
    using h on2 by (simp add: subscribed_def addAttribute_heap Let_def split: option.splits)
qed

lemma addAttribute_present_subscribed:
  assumes "buffers (geo w) = Some bs" and "buffer (fst (ensureIsAttribute a (heap w))) \<in> set bs"
  shows "subscribed r ev (snd (addAttribute name a w)) = subscribed r ev w"
  using assms ensureIsAttribute_keeps [of r a "heap w" ev]
  by (simp add: subscribed_def addAttribute_heap Let_def)

lemma invoke_frame:
  "heap (invoke l ev w) = heap w \<and> attributes (geo (invoke l ev w)) = attributes (geo w)
   \<and> buffers (geo (invoke l ev w)) = buffers (geo w)
   \<and> priv_bounds (geo (invoke l ev w)) = priv_bounds (geo w)"
  by (cases l) (simp_all add: onBufferUpdate_def emit_def)

lemma fold_invoke_frame:
  "heap (fold (\<lambda>l. invoke l ev) ls w) = heap w
   \<and> attributes (geo (fold (\<lambda>l. invoke l ev) ls w)) = attributes (geo w)
   \<and> buffers (geo (fold (\<lambda>l. invoke l ev) ls w)) = buffers (geo w)
   \<and> priv_bounds (geo (fold (\<lambda>l. invoke l ev) ls w)) = priv_bounds (geo w)"
  by (induction ls arbitrary: w) (simp_all add: invoke_frame)

lemma buffer_emit_frame:
  "heap (buffer_emit r ev w) = heap w"
  "attributes (geo (buffer_emit r ev w)) = attributes (geo w)"
  "buffers (geo (buffer_emit r ev w)) = buffers (geo w)"
  "priv_bounds (geo (buffer_emit r ev w)) = priv_bounds (geo w)"
  by (simp_all add: buffer_emit_def fold_invoke_frame)

lemma bounds_frame:
  "heap (snd (bounds calc w)) = heap w"
  "attributes (geo (snd (bounds calc w))) = attributes (geo w)"
  "buffers (geo (snd (bounds calc w))) = buffers (geo w)"
  by (auto simp: bounds_def getGeometryBounds_def getAttribute_def Let_def split: option.splits)

lemma attributes_subscribed_frame:
  assumes "heap w' = heap w" and "attributes (geo w') = attributes (geo w)"
  shows "attributes_subscribed w' = attributes_subscribed w"
  using assms by (cases "attributes (geo w)") (simp_all add: attributes_subscribed_def subscribed_def)

lemma addIndex_attributes: "attributes (geo (snd (addIndex ib w))) = attributes (geo w)"
  by (auto simp: addIndex_def Let_def split: prod.splits option.splits)

lemma addIndex_keeps_attributes_subscribed:
  "attributes_subscribed (snd (addIndex ib w)) = attributes_subscribed w"
  by (cases "attributes (geo w)")
    (simp_all add: attributes_subscribed_def addIndex_attributes addIndex_subscribed)

lemma set_update_subset: "set (AList.update k v al) \<subseteq> insert (k, v) (set al)"
  by (induction al) auto

lemma addAttribute_keeps_attributes_subscribed:
  assumes "attributes_subscribed w" and "buffers (geo w) = Some bs"
    and "buffer (fst (ensureIsAttribute a (heap w))) = t"
    and "(t \<notin> set bs \<and> t < length (snd (ensureIsAttribute a (heap w))))
         \<or> (subscribed t BufferUpdate w \<and> subscribed t BufferChange w)"
  shows "attributes_subscribed (snd (addAttribute name a w))"
proof (cases "attributes (geo w)")
  case None
  then show ?thesis
    using assms(2) by (auto simp: attributes_subscribed_def addAttribute_def Let_def split: prod.splits)
next
  case (Some as)
  let ?w = "snd (addAttribute name a w)"
  let ?att = "fst (ensureIsAttribute a (heap w))"
  have as': "attributes (geo ?w) = Some (AList.update name ?att as)"
    using addAttribute_live(3) [OF assms(2) Some] .
  have new: "subscribed t BufferUpdate ?w \<and> subscribed t BufferChange ?w"
    using assms(4)
  proof
    assume "t \<notin> set bs \<and> t < length (snd (ensureIsAttribute a (heap w)))"
    then show ?thesis
      using addAttribute_subscribes [OF assms(2,3)] by simp
  next
    assume "subscribed t BufferUpdate w \<and> subscribed t BufferChange w"
    then show ?thesis by (simp add: addAttribute_keeps_subscribed)
  qed
  have old: "\<forall>p \<in> set as. subscribed (buffer (snd p)) BufferUpdate ?w
                       \<and> subscribed (buffer (snd p)) BufferChange ?w"
    using assms(1) Some by (simp add: attributes_subscribed_def addAttribute_keeps_subscribed)
  show ?thesis
    unfolding attributes_subscribed_def as'
    using set_update_subset [of name ?att as] new old assms(3) by auto
qed

lemma valid_spec_target:
  "valid_spec h a \<Longrightarrow>
     buffer (fst (ensureIsAttribute a h)) < length (snd (ensureIsAttribute a h))
   \<and> length h \<le> length (snd (ensureIsAttribute a h))"
  by (cases "spec_buffer a")
     (simp_all add: valid_spec_def ensureIsAttribute_buffer ensureIsBuffer_def)

lemma valid_spec_mono: "valid_spec h a \<Longrightarrow> length h \<le> length h' \<Longrightarrow> valid_spec h' a"
  by (cases "spec_buffer a") (simp_all add: valid_spec_def)

lemma addAttribute_heap_length:
  "length (snd (ensureIsAttribute a (heap w))) = length (heap (snd (addAttribute name a w)))"
  by (simp add: addAttribute_heap Let_def buffer_on_length split: option.splits)

text \<open>
  While only \<open>addAttribute\<close> has been called, the geometry is subscribed to every
  entry of \<open>buffers\<close>, and the buffer of every attribute is an entry.
\<close>

lemma addAttribute_all_subscribed:
  assumes "buffers (geo w) = Some bs" and "attributes (geo w) = Some as"
    and "\<forall>b \<in> set bs. subscribed b BufferUpdate w \<and> subscribed b BufferChange w"
    and "\<forall>p \<in> set as. buffer (snd p) \<in> set bs"
    and "valid_spec (heap w) a"
  shows "\<exists>bs' as'. buffers (geo (snd (addAttribute name a w))) = Some bs'
      \<and> attributes (geo (snd (addAttribute name a w))) = Some as'
      \<and> (\<forall>b \<in> set bs'. subscribed b BufferUpdate (snd (addAttribute name a w))
                       \<and> subscribed b BufferChange (snd (addAttribute name a w)))
      \<and> (\<forall>p \<in> set as'. buffer (snd p) \<in> set bs')"
proof -
  let ?w = "snd (addAttribute name a w)"
  let ?att = "fst (ensureIsAttribute a (heap w))"
  let ?t = "buffer ?att"
  let ?bs = "if ?t \<in> set bs then bs else bs @ [?t]"
  have bs': "buffers (geo ?w) = Some ?bs"
    using addAttribute_live(2) [OF assms(1,2)] .
  have as': "attributes (geo ?w) = Some (AList.update name ?att as)"
    using addAttribute_live(3) [OF assms(1,2)] .
  have old: "\<forall>b \<in> set bs. subscribed b BufferUpdate ?w \<and> subscribed b BufferChange ?w"
    using assms(3) by (simp add: addAttribute_keeps_subscribed)
  have new: "?t \<notin> set bs \<Longrightarrow> subscribed ?t BufferUpdate ?w \<and> subscribed ?t BufferChange ?w"
    using addAttribute_subscribes [OF assms(1) refl, of a name] valid_spec_target [OF assms(5)]
    by simp
  have sub: "\<forall>b \<in> set ?bs. subscribed b BufferUpdate ?w \<and> subscribed b BufferChange ?w"
    using old new by auto
  have mem: "\<forall>p \<in> set (AList.update name ?att as). buffer (snd p) \<in> set ?bs"
    using set_update_subset [of name ?att as] assms(4) by auto
  show ?thesis
    using bs' as' sub mem by blast
qed

lemma addAttributes_all_subscribed:
  assumes "buffers (geo w) = Some bs" and "attributes (geo w) = Some as"
    and "\<forall>b \<in> set bs. subscribed b BufferUpdate w \<and> subscribed b BufferChange w"
    and "\<forall>p \<in> set as. buffer (snd p) \<in> set bs"
    and "\<forall>p \<in> set specs. valid_spec (heap w) (snd p)"
  shows "attributes_subscribed (snd (addAttributes specs w))"
  using assms
proof (induction specs arbitrary: w bs as)
  case Nil
  then show ?case by (auto simp: attributes_subscribed_def)
next
  case (Cons p specs)
  obtain name a where p: "p = (name, a)" by (cases p)
  let ?w = "snd (addAttribute name a w)"
  have v: "valid_spec (heap w) a" using Cons.prems(5) p by simp
  obtain bs' as' where step: "buffers (geo ?w) = Some bs'" "attributes (geo ?w) = Some as'"
      "\<forall>b \<in> set bs'. subscribed b BufferUpdate ?w \<and> subscribed b BufferChange ?w"
      "\<forall>p \<in> set as'. buffer (snd p) \<in> set bs'"
    using addAttribute_all_subscribed [OF Cons.prems(1-4) v, of name] by blast
  have len: "length (heap w) \<le> length (heap ?w)"
    using valid_spec_target [OF v] addAttribute_heap_length [of a w name] by simp
  have rest: "\<forall>p \<in> set specs. valid_spec (heap ?w) (snd p)"
    using Cons.prems(5) valid_spec_mono [OF _ len] by simp
  have eq: "addAttributes (p # specs) w = addAttributes specs ?w"
    using addAttribute_live(1) [OF Cons.prems(1,2)] by (simp add: p and_then_Inr)
  show ?case
    using Cons.IH [OF step rest] by (simp add: eq)
qed

lemma Geometry_attributes_subscribed:
  assumes "\<forall>specs. attrs = Some specs \<longrightarrow> (\<forall>p \<in> set specs. valid_spec h (snd p))"
  shows "attributes_subscribed (snd (Geometry attrs ib topo count u b0 h))"
proof -
  define w0 where "w0 = \<lparr>geo = \<lparr>topology = TriangleList, uid = u, attributes = Some [],
                       buffers = Some [], indexBuffer = None, priv_layoutKey = 0,
                       instanceCount = 1, priv_bounds = Some b0,
                       priv_boundsDirty = True, listeners = []\<rparr>,
                heap = h, calls = []\<rparr>"
  define r1 where "r1 = (case attrs of None \<Rightarrow> (Inr (), w0) | Some l \<Rightarrow> addAttributes l w0)"
  define f2 where "f2 = (\<lambda>w::world. (Inr () :: error + unit, w\<lparr>geo := (geo w)\<lparr>instanceCount :=
                                     (case count of None \<Rightarrow> 1 | Some n \<Rightarrow> n)\<rparr>\<rparr>))"
  define f3 where "f3 = (\<lambda>w::world. case ib of None \<Rightarrow> (Inr (), w) | Some b \<Rightarrow> addIndex b w)"
  define f4 where "f4 = (\<lambda>w::world. (Inr () :: error + unit, w\<lparr>geo := (geo w)\<lparr>topology :=
                               (case topo of None \<Rightarrow> TriangleList | Some t \<Rightarrow> t)\<rparr>\<rparr>))"
  have G: "Geometry attrs ib topo count u b0 h = and_then (and_then (and_then r1 f2) f3) f4"
    unfolding Geometry_def Let_def w0_def r1_def f2_def f3_def f4_def ..
  have w0: "buffers (geo w0) = Some []" "attributes (geo w0) = Some []" "heap w0 = h"
    by (simp_all add: w0_def)
  have r1: "fst r1 = Inr () \<and> buffers (geo (snd r1)) \<noteq> None \<and> attributes_subscribed (snd r1)"
  proof (cases attrs)
    case None
    then show ?thesis using w0 by (simp add: r1_def attributes_subscribed_def)
  next
    case (Some l)
    have v: "\<forall>p \<in> set l. valid_spec (heap w0) (snd p)"
      using assms Some w0(3) by simp
    show ?thesis
      using addAttributes_live [OF w0(1,2), of l]
        addAttributes_all_subscribed [OF w0(1,2) _ _ v]
      by (simp add: r1_def Some)
  qed
  have s2: "and_then r1 f2 = f2 (snd r1)"
    using r1 by (simp add: and_then_Inr)
  have r2: "fst (f2 (snd r1)) = Inr () \<and> buffers (geo (snd (f2 (snd r1)))) \<noteq> None
      \<and> attributes_subscribed (snd (f2 (snd r1)))"
    using r1 attributes_subscribed_frame [of "snd (f2 (snd r1))" "snd r1"] by (simp add: f2_def)
  have s3: "and_then (f2 (snd r1)) f3 = f3 (snd (f2 (snd r1)))"
    using r2 by (simp add: and_then_Inr)
  have r3: "fst (f3 (snd (f2 (snd r1)))) = Inr () \<and> attributes_subscribed (snd (f3 (snd (f2 (snd r1)))))"
  proof (cases ib)
    case None
    then show ?thesis using r2 by (simp add: f3_def)
  next
    case (Some b)
    obtain bs where bs: "buffers (geo (snd (f2 (snd r1)))) = Some bs"
      using r2 by auto
    show ?thesis
      using addIndex_live(1) [OF bs, of b] r2
      by (simp add: f3_def Some addIndex_keeps_attributes_subscribed)
  qed
  have s4: "and_then (f3 (snd (f2 (snd r1)))) f4 = f4 (snd (f3 (snd (f2 (snd r1)))))"
    using r3 by (simp add: and_then_Inr)
  have "attributes_subscribed (snd (f4 (snd (f3 (snd (f2 (snd r1)))))))"
    using r3 attributes_subscribed_frame [of "snd (f4 (snd (f3 (snd (f2 (snd r1))))))" "snd (f3 (snd (f2 (snd r1))))"]
    by (simp add: f4_def)
  then show ?thesis
    by (simp add: G s2 s3 s4)
qed

lemma attribute_notification_dirty:
  assumes "attributes_subscribed w" and "getAttribute name w = Inr (Some a)"
  shows "subscribed (buffer a) ev w \<and> priv_boundsDirty (geo (buffer_emit (buffer a) ev w))"
proof -
  obtain as where as: "attributes (geo w) = Some as" and m: "map_of as name = Some a"
    using assms(2) by (auto simp: getAttribute_def split: option.splits)
  have "(name, a) \<in> set as" using m by (rule map_of_SomeD)
  then have "subscribed (buffer a) BufferUpdate w \<and> subscribed (buffer a) BufferChange w"
    using assms(1) as by (auto simp: attributes_subscribed_def)
  then have "subscribed (buffer a) ev w" by (cases ev) simp_all
  then show ?thesis by (simp add: buffer_emit_subscribed)
qed

text \<open>
  Through any run every entry of \<open>buffers\<close> is subscribed or was brought in by
  \<open>addIndex\<close>, and the buffer of every attribute is an entry.
\<close>

lemma perform_subscribed_or_index:
  assumes "buffers (geo w) = Some bs" and "attributes (geo w) = Some as"
    and "\<forall>b \<in> set bs. (subscribed b BufferUpdate w \<and> subscribed b BufferChange w) \<or> b \<in> X"
    and "\<forall>p \<in> set as. buffer (snd p) \<in> set bs"
    and "valid_run cs w"
  shows "fst (perform cs w) = Inr ()
      \<and> (\<exists>bs' as'. buffers (geo (snd (perform cs w))) = Some bs'
      \<and> attributes (geo (snd (perform cs w))) = Some as'
      \<and> (\<forall>b \<in> set bs'. (subscribed b BufferUpdate (snd (perform cs w))
                          \<and> subscribed b BufferChange (snd (perform cs w)))
                       \<or> b \<in> X \<union> set (index_first cs w))
      \<and> (\<forall>p \<in> set as'. buffer (snd p) \<in> set bs'))"
  using assms
proof (induction cs arbitrary: w bs as X)
  case Nil
  then show ?case by simp
next
  case (Cons c cs)
  show ?case
  proof (cases c)
    case (AddAttribute name a)
    let ?w = "snd (addAttribute name a w)"
    let ?att = "fst (ensureIsAttribute a (heap w))"
    let ?t = "buffer ?att"
    let ?bs = "if ?t \<in> set bs then bs else bs @ [?t]"
    have v: "valid_spec (heap w) a" and vr: "valid_run cs ?w"
      using Cons.prems(5) AddAttribute by simp_all
    have ok: "fst (addAttribute name a w) = Inr ()"
      using addAttribute_live(1) [OF Cons.prems(1,2)] .
    have bs': "buffers (geo ?w) = Some ?bs"
      using addAttribute_live(2) [OF Cons.prems(1,2)] .
    have as': "attributes (geo ?w) = Some (AList.update name ?att as)"
      using addAttribute_live(3) [OF Cons.prems(1,2)] .
    have old: "\<forall>b \<in> set bs. (subscribed b BufferUpdate ?w \<and> subscribed b BufferChange ?w) \<or> b \<in> X"
      using Cons.prems(3) addAttribute_keeps_subscribed by blast
    have new: "?t \<notin> set bs \<Longrightarrow> subscribed ?t BufferUpdate ?w \<and> subscribed ?t BufferChange ?w"
      using addAttribute_subscribes [OF Cons.prems(1) refl, of a name] valid_spec_target [OF v]
      by simp
    have sub: "\<forall>b \<in> set ?bs. (subscribed b BufferUpdate ?w \<and> subscribed b BufferChange ?w) \<or> b \<in> X"
      using old new by auto
    have mem: "\<forall>p \<in> set (AList.update name ?att as). buffer (snd p) \<in> set ?bs"
      using set_update_subset [of name ?att as] Cons.prems(4) by auto
    show ?thesis
      using Cons.IH [OF bs' as' sub mem vr] by (simp add: AddAttribute and_then_Inr [OF ok])
  next
    case (AddIndex ib)
    let ?w = "snd (addIndex ib w)"
    let ?r = "fst (ensureIsBuffer ib True (heap w))"
    let ?X = "X \<union> (if ?r \<in> set bs then {} else {?r})"
    have vr: "valid_run cs ?w"
      using Cons.prems(5) AddIndex by simp
    have ok: "fst (addIndex ib w) = Inr ()"
      using addIndex_live(1) [OF Cons.prems(1)] .
    have bs': "buffers (geo ?w) = Some (bs @ [?r])"
      using addIndex_live(2) [OF Cons.prems(1)] .
    have as': "attributes (geo ?w) = Some as"
      using addIndex_live(4) [OF Cons.prems(1), of ib] Cons.prems(2) by simp
    have sub: "\<forall>b \<in> set (bs @ [?r]). (subscribed b BufferUpdate ?w \<and> subscribed b BufferChange ?w)
                 \<or> b \<in> ?X"
      using Cons.prems(3) by (auto simp: addIndex_subscribed)
    have mem: "\<forall>p \<in> set as. buffer (snd p) \<in> set (bs @ [?r])"
      using Cons.prems(4) by simp
    have X: "?X \<union> set (index_first cs ?w) = X \<union> set (index_first (AddIndex ib # cs) w)"
      using Cons.prems(1) by auto
    have "fst (perform cs ?w) = Inr ()
      \<and> (\<exists>bs' as'. buffers (geo (snd (perform cs ?w))) = Some bs'
      \<and> attributes (geo (snd (perform cs ?w))) = Some as'
      \<and> (\<forall>b \<in> set bs'. (subscribed b BufferUpdate (snd (perform cs ?w))
                          \<and> subscribed b BufferChange (snd (perform cs ?w)))
                       \<or> b \<in> X \<union> set (index_first (AddIndex ib # cs) w))
      \<and> (\<forall>p \<in> set as'. buffer (snd p) \<in> set bs'))"
      using Cons.IH [OF bs' as' sub mem vr] unfolding X .
    then show ?thesis
      unfolding AddIndex perform.simps and_then_Inr [OF ok] .
  qed
qed

lemma run_attribute_notification:
  assumes "buffers (geo w) = Some bs" and "attributes (geo w) = Some as"
    and "\<forall>b \<in> set bs. subscribed b BufferUpdate w \<and> subscribed b BufferChange w"
    and "\<forall>p \<in> set as. buffer (snd p) \<in> set bs"
    and "valid_run cs w"
    and "getAttribute name (snd (perform cs w)) = Inr (Some a)"
    and "buffer a \<notin> set (index_first cs w)"
  shows "subscribed (buffer a) ev (snd (perform cs w))
       \<and> priv_boundsDirty (geo (buffer_emit (buffer a) ev (snd (perform cs w))))"
proof -
  let ?w = "snd (perform cs w)"
  have inv: "\<forall>b \<in> set bs. (subscribed b BufferUpdate w \<and> subscribed b BufferChange w) \<or> b \<in> {}"
    using assms(3) by simp
  obtain bs' as' where b: "buffers (geo ?w) = Some bs'" and a: "attributes (geo ?w) = Some as'"
    and sub: "\<forall>b \<in> set bs'. (subscribed b BufferUpdate ?w \<and> subscribed b BufferChange ?w)
                 \<or> b \<in> {} \<union> set (index_first cs w)"
    and mem: "\<forall>p \<in> set as'. buffer (snd p) \<in> set bs'"
    using perform_subscribed_or_index [OF assms(1,2) inv assms(4,5)] by blast
  have "map_of as' name = Some a"
    using assms(6) a by (simp add: getAttribute_def)
  then have "(name, a) \<in> set as'" by (rule map_of_SomeD)
  then have "buffer a \<in> set bs'" using mem by auto
  then have "subscribed (buffer a) BufferUpdate ?w \<and> subscribed (buffer a) BufferChange ?w"
    using sub assms(7) by auto
  then have "subscribed (buffer a) ev ?w" by (cases ev) simp_all
  then show ?thesis by (simp add: buffer_emit_subscribed)
qed

lemma bounds_subscribed: "subscribed r ev (snd (bounds calc w)) = subscribed r ev w"
  by (simp add: subscribed_def bounds_frame)

lemma buffer_emit_keeps_subscribed: "subscribed r ev (buffer_emit r' ev' w) = subscribed r ev w"
  by (simp add: subscribed_def buffer_emit_frame)

lemma constructed_geometry_eq:
  "constructed_geometry =
     \<lparr>geo = \<lparr>topology = TriangleList, uid = 0,
              attributes = Some [(''aPosition'', position0)], buffers = Some [0, 0],
              indexBuffer = Some 0, priv_layoutKey = 0, instanceCount = 1,
              priv_bounds = Some box, priv_boundsDirty = True, listeners = []\<rparr>,
       heap = [\<lparr>data = [0, 0, 0, 100, 100, 100, 100, 0], index = False,
                buffer_listeners = [(BufferUpdate, OnBufferUpdate), (BufferChange, OnBufferUpdate)]\<rparr>],
       calls = []\<rparr>"
  by (simp add: constructed_geometry_def construct_simps position0_def)

lemma indexed_geometry_eq:
  "indexed_geometry =
     \<lparr>geo = \<lparr>topology = TriangleList, uid = 0, attributes = Some [], buffers = Some [0],
              indexBuffer = Some 0, priv_layoutKey = 0, instanceCount = 1,
              priv_bounds = Some box, priv_boundsDirty = True, listeners = [(Update, 7)]\<rparr>,
       heap = [plain_buffer], calls = []\<rparr>"
  by (simp add: indexed_geometry_def empty_geometry_def on_def Geometry_def and_then_def
      addIndex_def ensureIsBuffer_def)

text \<open>
  C2 (as the code has it). The dirty flag is true when the constructor returns, which
  it always does. Reading \<open>bounds\<close> on a live geometry whose flag is set calls the
  calculator once, stores and returns its result and clears the flag. Reading it with
  the flag clear returns the cached Bounds and changes nothing, so nothing is
  recomputed. A content or resize notification from a buffer the geometry is
  subscribed to sets the flag again. \<open>addAttribute\<close> subscribes the geometry, for both
  events, to the buffer of the attribute exactly when that buffer is not yet in
  \<open>buffers\<close>: when it is there, and for every other buffer, the call leaves the
  subscriptions as they were. No call of \<open>addAttribute\<close>, \<open>addIndex\<close> or \<open>bounds\<close> and
  no notification removes a subscription. So the geometry the constructor returns is
  subscribed to the buffer of every attribute, since it adds the attributes before the
  index buffer; that stays so under \<open>addIndex\<close>, \<open>bounds\<close>, notifications, and under
  every \<open>addAttribute\<close> whose buffer is new to \<open>buffers\<close> or already subscribed; and
  while it holds, a notification from the buffer of any attribute sets the flag, also
  after a read of the bounds. The one exception is a buffer that is in \<open>buffers\<close>
  without a subscription when \<open>addAttribute\<close> resolves to it, and only \<open>addIndex\<close>
  puts a buffer there without subscribing: start from a geometry that is subscribed to
  every entry of \<open>buffers\<close>, as one constructed from an empty descriptor is, and take
  any valid run of \<open>addAttribute\<close> and \<open>addIndex\<close> calls; afterwards a notification
  from the buffer of any attribute sets the flag, before and after a read of the
  bounds, unless an \<open>addIndex\<close> call of the run brought that buffer into \<open>buffers\<close>.
\<close>

theorem bounds_cache_cycle:
  "fst (Geometry attrs ib topo count u b0 h) = Inr ()
   \<and> priv_boundsDirty (geo (snd (Geometry attrs ib topo count u b0 h)))
   \<and> (priv_boundsDirty (geo w) \<and> attributes (geo w) = Some as \<and> priv_bounds (geo w) = Some b \<longrightarrow>
        bounds calc w =
           (Inr (Some (calc (map_of as ''aPosition'') (heap w) b)),
            w\<lparr>geo := (geo w)\<lparr>priv_boundsDirty := False,
                              priv_bounds := Some (calc (map_of as ''aPosition'') (heap w) b)\<rparr>,
              calls := calls w @ [GetGeometryBoundsCalled]\<rparr>))
   \<and> (\<not> priv_boundsDirty (geo w) \<longrightarrow> bounds calc w = (Inr (priv_bounds (geo w)), w))
   \<and> (subscribed r ev w \<longrightarrow> priv_boundsDirty (geo (buffer_emit r ev w)))
   \<and> (buffers (geo w) = Some bs \<and> buffer (fst (ensureIsAttribute a (heap w))) = t \<and> t \<notin> set bs
        \<and> t < length (snd (ensureIsAttribute a (heap w))) \<longrightarrow>
        subscribed t BufferUpdate (snd (addAttribute name a w))
      \<and> subscribed t BufferChange (snd (addAttribute name a w)))
   \<and> (buffers (geo w) = Some bs \<and> buffer (fst (ensureIsAttribute a (heap w))) \<in> set bs \<longrightarrow>
        subscribed r ev (snd (addAttribute name a w)) = subscribed r ev w)
   \<and> (buffer (fst (ensureIsAttribute a (heap w))) \<noteq> r \<longrightarrow>
        subscribed r ev (snd (addAttribute name a w)) = subscribed r ev w)
   \<and> (subscribed r ev w \<longrightarrow> subscribed r ev (snd (addAttribute name a w)))
   \<and> subscribed r ev (snd (addIndex ib' w)) = subscribed r ev w
   \<and> subscribed r ev (snd (bounds calc w)) = subscribed r ev w
   \<and> subscribed r ev (buffer_emit r' ev' w) = subscribed r ev w
   \<and> ((\<forall>specs. attrs = Some specs \<longrightarrow> (\<forall>p \<in> set specs. valid_spec h (snd p))) \<longrightarrow>
        attributes_subscribed (snd (Geometry attrs ib topo count u b0 h)))
   \<and> (attributes_subscribed w \<and> buffers (geo w) = Some bs
        \<and> buffer (fst (ensureIsAttribute a (heap w))) = t
        \<and> ((t \<notin> set bs \<and> t < length (snd (ensureIsAttribute a (heap w))))
             \<or> (subscribed t BufferUpdate w \<and> subscribed t BufferChange w)) \<longrightarrow>
        attributes_subscribed (snd (addAttribute name a w)))
   \<and> attributes_subscribed (snd (addIndex ib' w)) = attributes_subscribed w
   \<and> attributes_subscribed (snd (bounds calc w)) = attributes_subscribed w
   \<and> attributes_subscribed (buffer_emit r' ev' w) = attributes_subscribed w
   \<and> (attributes_subscribed w \<and> getAttribute name' w = Inr (Some a') \<longrightarrow>
        subscribed (buffer a') ev w
      \<and> priv_boundsDirty (geo (buffer_emit (buffer a') ev w))
      \<and> priv_boundsDirty (geo (buffer_emit (buffer a') ev (snd (bounds calc w)))))
   \<and> buffers (geo (snd (Geometry None None topo count u b0 h))) = Some []
   \<and> attributes (geo (snd (Geometry None None topo count u b0 h))) = Some []
   \<and> (buffers (geo w) = Some bs \<and> attributes (geo w) = Some as
        \<and> (\<forall>x \<in> set bs. subscribed x BufferUpdate w \<and> subscribed x BufferChange w)
        \<and> (\<forall>p \<in> set as. buffer (snd p) \<in> set bs)
        \<and> valid_run cs w
        \<and> getAttribute name' (snd (perform cs w)) = Inr (Some a')
        \<and> buffer a' \<notin> set (index_first cs w) \<longrightarrow>
        subscribed (buffer a') ev (snd (perform cs w))
      \<and> priv_boundsDirty (geo (buffer_emit (buffer a') ev (snd (perform cs w))))
      \<and> priv_boundsDirty (geo (buffer_emit (buffer a') ev (snd (bounds calc (snd (perform cs w)))))))"
proof -
  have fresh: "buffers (geo (snd (Geometry None None topo count u b0 h))) = Some []
      \<and> attributes (geo (snd (Geometry None None topo count u b0 h))) = Some []"
    by (simp add: Geometry_def and_then_def)
  have run: "buffers (geo w) = Some bs \<and> attributes (geo w) = Some as
        \<and> (\<forall>x \<in> set bs. subscribed x BufferUpdate w \<and> subscribed x BufferChange w)
        \<and> (\<forall>p \<in> set as. buffer (snd p) \<in> set bs)
        \<and> valid_run cs w
        \<and> getAttribute name' (snd (perform cs w)) = Inr (Some a')
        \<and> buffer a' \<notin> set (index_first cs w) \<longrightarrow>
        subscribed (buffer a') ev (snd (perform cs w))
      \<and> priv_boundsDirty (geo (buffer_emit (buffer a') ev (snd (perform cs w))))
      \<and> priv_boundsDirty (geo (buffer_emit (buffer a') ev (snd (bounds calc (snd (perform cs w))))))"
  proof
    assume h: "buffers (geo w) = Some bs \<and> attributes (geo w) = Some as
        \<and> (\<forall>x \<in> set bs. subscribed x BufferUpdate w \<and> subscribed x BufferChange w)
        \<and> (\<forall>p \<in> set as. buffer (snd p) \<in> set bs)
        \<and> valid_run cs w
        \<and> getAttribute name' (snd (perform cs w)) = Inr (Some a')
        \<and> buffer a' \<notin> set (index_first cs w)"
    then have s: "subscribed (buffer a') ev (snd (perform cs w))"
      and d: "priv_boundsDirty (geo (buffer_emit (buffer a') ev (snd (perform cs w))))"
      using run_attribute_notification [of w bs as cs name' a' ev] by simp_all
    have "subscribed (buffer a') ev (snd (bounds calc (snd (perform cs w))))"
      using s by (simp add: bounds_subscribed)
    then have "priv_boundsDirty (geo (buffer_emit (buffer a') ev (snd (bounds calc (snd (perform cs w))))))"
      by (rule buffer_emit_subscribed)
    then show "subscribed (buffer a') ev (snd (perform cs w))
      \<and> priv_boundsDirty (geo (buffer_emit (buffer a') ev (snd (perform cs w))))
      \<and> priv_boundsDirty (geo (buffer_emit (buffer a') ev (snd (bounds calc (snd (perform cs w))))))"
      using s d by simp
  qed
  have last: "attributes_subscribed w \<and> getAttribute name' w = Inr (Some a') \<longrightarrow>
        subscribed (buffer a') ev w
      \<and> priv_boundsDirty (geo (buffer_emit (buffer a') ev w))
      \<and> priv_boundsDirty (geo (buffer_emit (buffer a') ev (snd (bounds calc w))))"
  proof
    assume h: "attributes_subscribed w \<and> getAttribute name' w = Inr (Some a')"
    then have s: "subscribed (buffer a') ev w"
      and d: "priv_boundsDirty (geo (buffer_emit (buffer a') ev w))"
      using attribute_notification_dirty [of w name' a' ev] by simp_all
    have "subscribed (buffer a') ev (snd (bounds calc w))"
      using s by (simp add: bounds_subscribed)
    then have "priv_boundsDirty (geo (buffer_emit (buffer a') ev (snd (bounds calc w))))"
      by (rule buffer_emit_subscribed)
    then show "subscribed (buffer a') ev w
      \<and> priv_boundsDirty (geo (buffer_emit (buffer a') ev w))
      \<and> priv_boundsDirty (geo (buffer_emit (buffer a') ev (snd (bounds calc w))))"
      using s d by simp
  qed
  have frames: "attributes_subscribed (snd (bounds calc w)) = attributes_subscribed w"
    "attributes_subscribed (buffer_emit r' ev' w) = attributes_subscribed w"
    by (rule attributes_subscribed_frame; simp add: bounds_frame buffer_emit_frame)+
  have main: "fst (Geometry attrs ib topo count u b0 h) = Inr ()
   \<and> priv_boundsDirty (geo (snd (Geometry attrs ib topo count u b0 h)))
   \<and> (priv_boundsDirty (geo w) \<and> attributes (geo w) = Some as \<and> priv_bounds (geo w) = Some b \<longrightarrow>
        bounds calc w =
           (Inr (Some (calc (map_of as ''aPosition'') (heap w) b)),
            w\<lparr>geo := (geo w)\<lparr>priv_boundsDirty := False,
                              priv_bounds := Some (calc (map_of as ''aPosition'') (heap w) b)\<rparr>,
              calls := calls w @ [GetGeometryBoundsCalled]\<rparr>))
   \<and> (\<not> priv_boundsDirty (geo w) \<longrightarrow> bounds calc w = (Inr (priv_bounds (geo w)), w))
   \<and> (subscribed r ev w \<longrightarrow> priv_boundsDirty (geo (buffer_emit r ev w)))
   \<and> (buffers (geo w) = Some bs \<and> buffer (fst (ensureIsAttribute a (heap w))) = t \<and> t \<notin> set bs
        \<and> t < length (snd (ensureIsAttribute a (heap w))) \<longrightarrow>
        subscribed t BufferUpdate (snd (addAttribute name a w))
      \<and> subscribed t BufferChange (snd (addAttribute name a w)))
   \<and> (buffers (geo w) = Some bs \<and> buffer (fst (ensureIsAttribute a (heap w))) \<in> set bs \<longrightarrow>
        subscribed r ev (snd (addAttribute name a w)) = subscribed r ev w)
   \<and> (buffer (fst (ensureIsAttribute a (heap w))) \<noteq> r \<longrightarrow>
        subscribed r ev (snd (addAttribute name a w)) = subscribed r ev w)
   \<and> (subscribed r ev w \<longrightarrow> subscribed r ev (snd (addAttribute name a w)))
   \<and> subscribed r ev (snd (addIndex ib' w)) = subscribed r ev w
   \<and> subscribed r ev (snd (bounds calc w)) = subscribed r ev w
   \<and> subscribed r ev (buffer_emit r' ev' w) = subscribed r ev w
   \<and> ((\<forall>specs. attrs = Some specs \<longrightarrow> (\<forall>p \<in> set specs. valid_spec h (snd p))) \<longrightarrow>
        attributes_subscribed (snd (Geometry attrs ib topo count u b0 h)))
   \<and> (attributes_subscribed w \<and> buffers (geo w) = Some bs
        \<and> buffer (fst (ensureIsAttribute a (heap w))) = t
        \<and> ((t \<notin> set bs \<and> t < length (snd (ensureIsAttribute a (heap w))))
             \<or> (subscribed t BufferUpdate w \<and> subscribed t BufferChange w)) \<longrightarrow>
        attributes_subscribed (snd (addAttribute name a w)))
   \<and> attributes_subscribed (snd (addIndex ib' w)) = attributes_subscribed w
   \<and> attributes_subscribed (snd (bounds calc w)) = attributes_subscribed w
   \<and> attributes_subscribed (buffer_emit r' ev' w) = attributes_subscribed w
   \<and> (attributes_subscribed w \<and> getAttribute name' w = Inr (Some a') \<longrightarrow>
        subscribed (buffer a') ev w
      \<and> priv_boundsDirty (geo (buffer_emit (buffer a') ev w))
      \<and> priv_boundsDirty (geo (buffer_emit (buffer a') ev (snd (bounds calc w)))))"
    using Geometry_dirty [of attrs ib topo count u b0 h] bounds_dirty [of w as b calc]
      bounds_clean [of w calc] buffer_emit_subscribed [of r ev w]
      addAttribute_subscribes [of w bs a t name]
      addAttribute_present_subscribed [of w bs a r ev name]
      addAttribute_other_subscribed [of a w r ev name]
      addAttribute_keeps_subscribed [of r ev w name a]
      addIndex_subscribed [of r ev ib' w] bounds_subscribed [of r ev calc w]
      buffer_emit_keeps_subscribed [of r ev r' ev' w]
      Geometry_attributes_subscribed [of attrs h ib topo count u b0]
      addAttribute_keeps_attributes_subscribed [of w bs a t name]
      addIndex_keeps_attributes_subscribed [of ib' w] frames last
    by blast
  show ?thesis
    using main fresh run
    apply -
    apply (elim conjE)
    apply (intro conjI)
    apply assumption+
    done
qed

theorem bounds_cache_cycle_witness:
  "priv_boundsDirty (geo unread_geometry)
   \<and> attributes (geo unread_geometry) = Some [(''aPosition'', position0)]
   \<and> priv_bounds (geo unread_geometry) = Some box
   \<and> bounds unit_calc unread_geometry = (Inr (Some unit_square), watched_geometry)
   \<and> calls watched_geometry = calls unread_geometry @ [GetGeometryBoundsCalled]
   \<and> \<not> priv_boundsDirty (geo watched_geometry)
   \<and> bounds unit_calc watched_geometry = (Inr (Some unit_square), watched_geometry)
   \<and> subscribed 0 BufferChange watched_geometry
   \<and> priv_boundsDirty (geo (buffer_emit 0 BufferChange watched_geometry))
   \<and> buffers (geo listened_geometry) = Some []
   \<and> buffer (fst (ensureIsAttribute (Plain (IsBuffer 0)) (heap listened_geometry))) = 0
   \<and> 0 \<notin> set ([] :: nat list)
   \<and> 0 < length (snd (ensureIsAttribute (Plain (IsBuffer 0)) (heap listened_geometry)))
   \<and> subscribed 0 BufferUpdate unread_geometry
   \<and> subscribed 0 BufferChange unread_geometry
   \<and> valid_spec [plain_buffer] (Plain (IsBuffer 0))
   \<and> attributes_subscribed constructed_geometry
   \<and> getAttribute ''aPosition'' constructed_geometry = Inr (Some position0)
   \<and> \<not> priv_boundsDirty (geo (snd (bounds unit_calc constructed_geometry)))
   \<and> priv_boundsDirty (geo (buffer_emit (buffer position0) BufferUpdate
                                (snd (bounds unit_calc constructed_geometry))))
   \<and> buffers (geo indexed_geometry) = Some [0]
   \<and> buffer (fst (ensureIsAttribute (Plain (IsBuffer 0)) (heap indexed_geometry))) \<in> set [0]
   \<and> \<not> subscribed 0 BufferUpdate indexed_geometry
   \<and> \<not> subscribed 0 BufferUpdate (snd (addAttribute ''aPosition'' (Plain (IsBuffer 0)) indexed_geometry))
   \<and> attributes (geo listened_geometry) = Some []
   \<and> valid_run index_run listened_geometry
   \<and> index_first index_run listened_geometry = [0]
   \<and> getAttribute ''aPosition'' (snd (perform index_run listened_geometry)) =
       Inr (Some \<lparr>buffer = 1, format = None, stride = None, offset = None,
             instanced = None, attr_size = None, start = None, divisor = None\<rparr>)
   \<and> \<not> priv_boundsDirty (geo (snd (bounds unit_calc (snd (perform index_run listened_geometry)))))
   \<and> priv_boundsDirty (geo (buffer_emit 1 BufferChange
                                (snd (bounds unit_calc (snd (perform index_run listened_geometry))))))"
proof -
  have d: "priv_boundsDirty (geo unread_geometry)
      \<and> attributes (geo unread_geometry) = Some [(''aPosition'', position0)]
      \<and> priv_bounds (geo unread_geometry) = Some box"
    by (simp add: unread_geometry_eq)
  have c: "\<not> priv_boundsDirty (geo watched_geometry)"
    and c': "priv_bounds (geo watched_geometry) = Some unit_square"
    and c'': "calls watched_geometry = calls unread_geometry @ [GetGeometryBoundsCalled]"
    by (simp_all add: watched_geometry_eq unread_geometry_eq)
  have s: "subscribed 0 BufferChange watched_geometry"
    by (simp add: subscribed_def watched_geometry_eq)
  have l: "buffers (geo listened_geometry) = Some []
      \<and> buffer (fst (ensureIsAttribute (Plain (IsBuffer 0)) (heap listened_geometry))) = 0
      \<and> 0 \<notin> set ([] :: nat list)
      \<and> 0 < length (snd (ensureIsAttribute (Plain (IsBuffer 0)) (heap listened_geometry)))"
    by (simp add: listened_geometry_eq ensureIsAttribute_def ensureIsBuffer_def)
  have r: "bounds unit_calc unread_geometry = (Inr (Some unit_square), watched_geometry)"
    by (simp add: watched_geometry_eq) (simp add: unread_geometry_eq bounds_def getGeometryBounds_def
      getAttribute_def unit_calc_def unit_square_def Let_def)
  have clean: "bounds unit_calc watched_geometry = (Inr (Some unit_square), watched_geometry)"
    using bounds_cache_cycle [where attrs = "None" and ib = "None" and topo = "None"
        and count = "None" and u = "0" and ?b0.0 = "box" and h = "[]"
        and w = "watched_geometry" and as = "[]" and b = "box"
        and calc = "unit_calc" and r = "0" and ev = "BufferUpdate" and bs = "[]"
        and a = "Plain (IsBuffer 0)" and t = "0" and name = "''aPosition''"
        and ib' = "IsBuffer 0" and r' = "0" and ev' = "BufferUpdate"
        and name' = "''aPosition''" and a' = "position0" and cs = "[]",
        THEN conjunct2, THEN conjunct2, THEN conjunct2, THEN conjunct1]
      c c'
    by simp
  have dirty: "priv_boundsDirty (geo (buffer_emit 0 BufferChange watched_geometry))"
    using bounds_cache_cycle [where attrs = "None" and ib = "None" and topo = "None"
        and count = "None" and u = "0" and ?b0.0 = "box" and h = "[]"
        and w = "watched_geometry" and as = "[]" and b = "box"
        and calc = "unit_calc" and r = "0" and ev = "BufferChange" and bs = "[]"
        and a = "Plain (IsBuffer 0)" and t = "0" and name = "''aPosition''"
        and ib' = "IsBuffer 0" and r' = "0" and ev' = "BufferUpdate"
        and name' = "''aPosition''" and a' = "position0" and cs = "[]",
        THEN conjunct2, THEN conjunct2, THEN conjunct2, THEN conjunct2,
        THEN conjunct1]
      s
    by simp
  have second: "subscribed 0 BufferUpdate unread_geometry \<and> subscribed 0 BufferChange unread_geometry"
    using bounds_cache_cycle [where attrs = "None" and ib = "None" and topo = "None"
        and count = "None" and u = "0" and ?b0.0 = "box" and h = "[]"
        and w = "listened_geometry" and as = "[]" and b = "box"
        and calc = "unit_calc" and r = "0" and ev = "BufferUpdate" and bs = "[]"
        and a = "Plain (IsBuffer 0)" and t = "0" and name = "''aPosition''"
        and ib' = "IsBuffer 0" and r' = "0" and ev' = "BufferUpdate"
        and name' = "''aPosition''" and a' = "position0" and cs = "[]",
        THEN conjunct2, THEN conjunct2, THEN conjunct2, THEN conjunct2,
        THEN conjunct2, THEN conjunct1]
      l
    unfolding unread_geometry_def by simp
  have v: "valid_spec [plain_buffer] (Plain (IsBuffer 0))"
    by (simp add: valid_spec_def spec_buffer_def)
  then have v': "\<forall>specs. Some [(''aPosition'', Plain (IsBuffer 0))] = Some specs \<longrightarrow>
      (\<forall>p \<in> set specs. valid_spec [plain_buffer] (snd p))"
    by auto
  have g: "getAttribute ''aPosition'' constructed_geometry = Inr (Some position0)"
    by (simp add: constructed_geometry_eq getAttribute_def)
  have third: "attributes_subscribed constructed_geometry"
    using bounds_cache_cycle [where attrs = "Some [(''aPosition'', Plain (IsBuffer 0))]"
        and ib = "Some (IsBuffer 0)" and topo = "None" and count = "None"
        and u = "0" and ?b0.0 = "box" and h = "[plain_buffer]"
        and w = "constructed_geometry" and as = "[]" and b = "box"
        and calc = "unit_calc" and r = "0" and ev = "BufferUpdate" and bs = "[]"
        and a = "Plain (IsBuffer 0)" and t = "0" and name = "''aPosition''"
        and ib' = "IsBuffer 0" and r' = "0" and ev' = "BufferUpdate"
        and name' = "''aPosition''" and a' = "position0" and cs = "[]",
        THEN conjunct2, THEN conjunct2, THEN conjunct2, THEN conjunct2,
        THEN conjunct2, THEN conjunct2, THEN conjunct2, THEN conjunct2,
        THEN conjunct2, THEN conjunct2, THEN conjunct2, THEN conjunct2,
        THEN conjunct1]
      v'
    unfolding constructed_geometry_def [symmetric] by blast
  have third': "priv_boundsDirty (geo (buffer_emit (buffer position0) BufferUpdate
                                (snd (bounds unit_calc constructed_geometry))))"
    using bounds_cache_cycle [where attrs = "None" and ib = "None" and topo = "None"
        and count = "None" and u = "0" and ?b0.0 = "box" and h = "[]"
        and w = "constructed_geometry" and as = "[]" and b = "box"
        and calc = "unit_calc" and r = "0" and ev = "BufferUpdate" and bs = "[]"
        and a = "Plain (IsBuffer 0)" and t = "0" and name = "''aPosition''"
        and ib' = "IsBuffer 0" and r' = "0" and ev' = "BufferUpdate"
        and name' = "''aPosition''" and a' = "position0" and cs = "[]",
        THEN conjunct2, THEN conjunct2, THEN conjunct2, THEN conjunct2,
        THEN conjunct2, THEN conjunct2, THEN conjunct2, THEN conjunct2,
        THEN conjunct2, THEN conjunct2, THEN conjunct2, THEN conjunct2,
        THEN conjunct2, THEN conjunct2, THEN conjunct2, THEN conjunct2,
        THEN conjunct2, THEN conjunct1]
      third g
    by blast
  have n: "\<not> priv_boundsDirty (geo (snd (bounds unit_calc constructed_geometry)))"
    by (simp add: constructed_geometry_eq bounds_def getGeometryBounds_def getAttribute_def Let_def)
  have i: "buffers (geo indexed_geometry) = Some [0]
      \<and> buffer (fst (ensureIsAttribute (Plain (IsBuffer 0)) (heap indexed_geometry))) \<in> set [0]"
    and i': "\<not> subscribed 0 BufferUpdate indexed_geometry"
    by (simp_all add: indexed_geometry_eq ensureIsAttribute_def ensureIsBuffer_def subscribed_def
        plain_buffer_def)
  have fourth: "\<not> subscribed 0 BufferUpdate (snd (addAttribute ''aPosition'' (Plain (IsBuffer 0)) indexed_geometry))"
    using bounds_cache_cycle [where attrs = "None" and ib = "None" and topo = "None"
        and count = "None" and u = "0" and ?b0.0 = "box" and h = "[]"
        and w = "indexed_geometry" and as = "[]" and b = "box"
        and calc = "unit_calc" and r = "0" and ev = "BufferUpdate" and bs = "[0]"
        and a = "Plain (IsBuffer 0)" and t = "0" and name = "''aPosition''"
        and ib' = "IsBuffer 0" and r' = "0" and ev' = "BufferUpdate"
        and name' = "''aPosition''" and a' = "position0" and cs = "[]",
        THEN conjunct2, THEN conjunct2, THEN conjunct2, THEN conjunct2,
        THEN conjunct2, THEN conjunct2, THEN conjunct1]
      i i'
    by blast
  have p: "attributes (geo listened_geometry) = Some []"
    and p1: "valid_run index_run listened_geometry"
    and p2: "index_first index_run listened_geometry = [0]"
    and p3: "getAttribute ''aPosition'' (snd (perform index_run listened_geometry)) =
          Inr (Some \<lparr>buffer = 1, format = None, stride = None, offset = None, instanced = None,
            attr_size = None, start = None, divisor = None\<rparr>)"
    by (simp_all add: listened_geometry_eq index_run_def valid_spec_def spec_buffer_def getAttribute_def
        and_then_def addAttribute_def addIndex_def ensureIsAttribute_def ensureIsBuffer_def
        buffer_on_def plain_buffer_def Let_def)
  have q: "\<not> priv_boundsDirty (geo (snd (bounds unit_calc (snd (perform index_run listened_geometry)))))"
    by (simp add: listened_geometry_eq index_run_def bounds_def getGeometryBounds_def getAttribute_def
        and_then_def addAttribute_def addIndex_def ensureIsAttribute_def ensureIsBuffer_def
        buffer_on_def plain_buffer_def Let_def)
  have hyp: "buffers (geo listened_geometry) = Some [] \<and> attributes (geo listened_geometry) = Some []
        \<and> (\<forall>x \<in> set ([] :: nat list). subscribed x BufferUpdate listened_geometry
              \<and> subscribed x BufferChange listened_geometry)
        \<and> (\<forall>p \<in> set ([] :: (string \<times> attribute) list). buffer (snd p) \<in> set ([] :: nat list))
        \<and> valid_run index_run listened_geometry
        \<and> getAttribute ''aPosition'' (snd (perform index_run listened_geometry)) =
            Inr (Some \<lparr>buffer = 1, format = None, stride = None, offset = None, instanced = None,
            attr_size = None, start = None, divisor = None\<rparr>)
        \<and> buffer \<lparr>buffer = 1, format = None, stride = None, offset = None, instanced = None,
            attr_size = None, start = None, divisor = None\<rparr>
            \<notin> set (index_first index_run listened_geometry)"
    using l p p1 p3 by (simp add: p2)
  have fifth: "priv_boundsDirty (geo (buffer_emit 1 BufferChange
                                (snd (bounds unit_calc (snd (perform index_run listened_geometry))))))"
    using bounds_cache_cycle [where attrs = "None" and ib = "None" and topo = "None"
        and count = "None" and u = "0" and ?b0.0 = "box" and h = "[]"
        and w = "listened_geometry" and as = "[]" and b = "box"
        and calc = "unit_calc" and r = "0" and ev = "BufferChange" and bs = "[]"
        and a = "Plain (IsBuffer 0)" and t = "0" and name = "''aPosition''"
        and ib' = "IsBuffer 0" and r' = "0" and ev' = "BufferUpdate"
        and name' = "''aPosition''"
        and a' = "\<lparr>buffer = 1, format = None, stride = None, offset = None, instanced = None, attr_size = None, start = None, divisor = None\<rparr>"
        and cs = "index_run",
        THEN conjunct2, THEN conjunct2, THEN conjunct2, THEN conjunct2,
        THEN conjunct2, THEN conjunct2, THEN conjunct2, THEN conjunct2,
        THEN conjunct2, THEN conjunct2, THEN conjunct2, THEN conjunct2,
        THEN conjunct2, THEN conjunct2, THEN conjunct2, THEN conjunct2,
        THEN conjunct2, THEN conjunct2, THEN conjunct2, THEN conjunct2]
      hyp
    by simp
  show ?thesis
    using d c c'' s l r clean dirty second v third third' g n i i' fourth p p1 p2 p3 q fifth
    by simp
qed

text \<open>
  C2 as stated, for any buffer an attribute refers to, fails: a Buffer that reached
  \<open>buffers\<close> through \<open>addIndex\<close> before \<open>aPosition\<close> was added on it is found there
  by \<open>addAttribute\<close>, which then does not subscribe. After a read of the bounds its
  notifications leave the flag clear.
\<close>

theorem bounds_cache_cycle_counterexample:
  "getAttribute ''aPosition'' index_then_attribute = Inr (Some position0)
   \<and> buffer position0 = 0
   \<and> \<not> priv_boundsDirty (geo index_then_attribute)
   \<and> \<not> priv_boundsDirty (geo (buffer_emit 0 BufferUpdate index_then_attribute))
   \<and> \<not> priv_boundsDirty (geo (buffer_emit 0 BufferChange index_then_attribute))"
  by (simp add: example_simps construct_simps position0_def)

section \<open>Geometry: destroy\<close>

lemma destroy_live:
  assumes "buffers (geo w) = Some bs"
  shows "destroy d w =
           (Inr (),
            w\<lparr>geo := (geo w)\<lparr>listeners := [], attributes := None, buffers := None,
                              indexBuffer := None, priv_bounds := None\<rparr>,
              calls := calls w @ notifications Destroy w
                         @ (if d then map BufferDestroyCalled bs else [])\<rparr>)"
  using assms
  by (simp add: destroy_def emit_def removeAllListeners_def notifications_def Let_def)

lemma destroy_False:
  "destroy False w =
           (Inr (),
            w\<lparr>geo := (geo w)\<lparr>listeners := [], attributes := None, buffers := None,
                              indexBuffer := None, priv_bounds := None\<rparr>,
              calls := calls w @ notifications Destroy w\<rparr>)"
  by (simp add: destroy_def emit_def removeAllListeners_def notifications_def Let_def)

lemma destroy_Inr:
  "destroy d w = (Inr u, w') \<Longrightarrow>
     attributes (geo w') = None \<and> buffers (geo w') = None \<and> indexBuffer (geo w') = None
     \<and> priv_bounds (geo w') = None \<and> listeners (geo w') = []
     \<and> priv_boundsDirty (geo w') = priv_boundsDirty (geo w) \<and> heap w' = heap w"
  by (auto simp: destroy_def emit_def removeAllListeners_def Let_def split: if_splits option.splits)

lemma invoke_no_listeners:
  "listeners (geo w) = [] \<Longrightarrow>
     listeners (geo (invoke l ev w)) = []
   \<and> filter is_notification (calls (invoke l ev w)) = filter is_notification (calls w)"
  by (cases l) (simp_all add: onBufferUpdate_def emit_def)

lemma fold_invoke_no_listeners:
  "listeners (geo w) = [] \<Longrightarrow>
     filter is_notification (calls (fold (\<lambda>l. invoke l ev) ls w)) = filter is_notification (calls w)"
proof (induction ls arbitrary: w)
  case Nil
  then show ?case by simp
next
  case (Cons l ls)
  show ?case
    using Cons.IH [of "invoke l ev w"] invoke_no_listeners [OF Cons.prems, of l ev] by simp
qed

text \<open>
  C5 (as the code has it). On a live geometry \<open>destroy\<close> returns normally. It
  notifies the listeners of \<open>destroy\<close>, then empties the geometry's own listeners, and
  calls \<open>destroy\<close> on every entry of \<open>buffers\<close> exactly when \<open>destroyBuffers\<close> is
  true. \<open>destroy(false)\<close> leaves the store of buffers as it is, so the geometry's
  subscriptions stay: a later notification from a subscribed buffer still runs
  \<open>onBufferUpdate\<close>, which sets the dirty flag. No listener of the geometry is
  notified by it, since none is left.
\<close>

theorem destroy_detaches_own_listeners:
  assumes "buffers (geo w) = Some bs"
  shows "fst (destroy d w) = Inr ()
       \<and> calls (snd (destroy d w)) =
           calls w @ notifications Destroy w @ (if d then map BufferDestroyCalled bs else [])
       \<and> listeners (geo (snd (destroy d w))) = []
       \<and> heap (snd (destroy False w)) = heap w
       \<and> subscribed r ev (snd (destroy False w)) = subscribed r ev w
       \<and> (subscribed r ev w \<longrightarrow>
            priv_boundsDirty (geo (buffer_emit r ev (snd (destroy False w)))))
       \<and> filter is_notification (calls (buffer_emit r ev (snd (destroy False w)))) =
           filter is_notification (calls (snd (destroy False w)))"
proof -
  note d = destroy_live [OF assms, of d]
  have l: "listeners (geo (snd (destroy False w))) = []"
    and h: "heap (snd (destroy False w)) = heap w"
    by (simp_all add: destroy_False)
  have s: "subscribed r ev (snd (destroy False w)) = subscribed r ev w"
    by (simp add: destroy_False subscribed_def)
  have e: "subscribed r ev w \<longrightarrow> priv_boundsDirty (geo (buffer_emit r ev (snd (destroy False w))))"
    using s buffer_emit_subscribed [of r ev "snd (destroy False w)"] by simp
  have n: "filter is_notification (calls (buffer_emit r ev (snd (destroy False w)))) =
           filter is_notification (calls (snd (destroy False w)))"
    unfolding buffer_emit_def by (rule fold_invoke_no_listeners [OF l])
  show ?thesis
    using h s e n by (simp add: d)
qed

theorem destroy_detaches_own_listeners_witness:
  "buffers (geo watched_geometry) = Some [0]
   \<and> subscribed 0 BufferChange watched_geometry
   \<and> notifications Destroy watched_geometry = [ListenerCalled 8 Destroy]
   \<and> calls (snd (destroy True watched_geometry)) =
       [GetGeometryBoundsCalled, ListenerCalled 8 Destroy, BufferDestroyCalled 0]
   \<and> calls (snd (destroy False watched_geometry)) = [GetGeometryBoundsCalled, ListenerCalled 8 Destroy]
   \<and> listeners (geo (snd (destroy False watched_geometry))) = []
   \<and> subscribed 0 BufferChange (snd (destroy False watched_geometry))
   \<and> priv_boundsDirty (geo (buffer_emit 0 BufferChange (snd (destroy False watched_geometry))))
   \<and> filter is_notification (calls (buffer_emit 0 BufferChange (snd (destroy False watched_geometry)))) =
       [ListenerCalled 8 Destroy]"
proof -
  have b: "buffers (geo watched_geometry) = Some [0]"
    by (simp add: watched_geometry_eq)
  have s: "subscribed 0 BufferChange watched_geometry"
    by (simp add: subscribed_def watched_geometry_eq)
  have n: "notifications Destroy watched_geometry = [ListenerCalled 8 Destroy]"
    and c: "calls watched_geometry = [GetGeometryBoundsCalled]"
    by (simp_all add: notifications_def watched_geometry_eq)
  show ?thesis
    using destroy_detaches_own_listeners [OF b, of True 0 BufferChange]
      destroy_detaches_own_listeners [OF b, of False 0 BufferChange] b s n c
    by simp
qed

text \<open>
  C5 as stated fails in its last part: after \<open>destroy(false)\<close> the handler is still
  among the listeners of the buffer \<open>aPosition\<close> referred to, and a change notification
  from that buffer turns the clear dirty flag of the destroyed geometry on.
\<close>

theorem destroy_detaches_counterexample:
  "fst (destroy False watched_geometry) = Inr ()
   \<and> getAttribute ''aPosition'' watched_geometry = Inr (Some position0)
   \<and> buffer position0 = 0
   \<and> (BufferChange, OnBufferUpdate) \<in>
       set (buffer_listeners (heap (snd (destroy False watched_geometry)) ! 0))
   \<and> \<not> priv_boundsDirty (geo (snd (destroy False watched_geometry)))
   \<and> priv_boundsDirty (geo (buffer_emit 0 BufferChange (snd (destroy False watched_geometry))))"
  by (simp add: watched_geometry_eq destroy_False notifications_def getAttribute_def position0_def
      buffer_emit_def onBufferUpdate_def emit_def)

lemma destroyed_addAttribute:
  "destroyed w \<Longrightarrow>
     fst (addAttribute name a w) = Inl TypeError \<and> destroyed (snd (addAttribute name a w))"
  by (auto simp: destroyed_def addAttribute_def Let_def split: prod.splits)

lemma destroyed_addIndex:
  "destroyed w \<Longrightarrow> fst (addIndex ib w) = Inl TypeError \<and> destroyed (snd (addIndex ib w))"
  by (auto simp: destroyed_def addIndex_def Let_def split: prod.splits)

lemma destroyed_bounds:
  assumes "destroyed w"
  shows "destroyed (snd (bounds calc w))"
    and "priv_boundsDirty (geo w) \<Longrightarrow>
           bounds calc w =
             (Inl TypeError, w\<lparr>geo := (geo w)\<lparr>priv_boundsDirty := False\<rparr>,
                               calls := calls w @ [GetGeometryBoundsCalled]\<rparr>)"
    and "\<not> priv_boundsDirty (geo w) \<Longrightarrow> bounds calc w = (Inr None, w)"
  using assms
  by (auto simp: destroyed_def bounds_def getGeometryBounds_def getAttribute_def)

lemma destroyed_destroy:
  assumes "destroyed w"
  shows "destroyed (snd (destroy d w))" and "fst (destroy True w) = Inl TypeError"
  using assms
  by (auto simp: destroyed_def destroy_def emit_def removeAllListeners_def Let_def)

lemma destroyed_on: "destroyed w \<Longrightarrow> destroyed (on ev cb w)"
  by (simp add: destroyed_def on_def)

lemma destroyed_emit: "destroyed w \<Longrightarrow> destroyed (emit ev w)"
  by (simp add: destroyed_def emit_def)

lemma destroyed_removeAllListeners: "destroyed w \<Longrightarrow> destroyed (removeAllListeners w)"
  by (simp add: destroyed_def removeAllListeners_def)

lemma destroyed_buffer_emit: "destroyed w \<Longrightarrow> destroyed (buffer_emit r ev w)"
  by (simp add: destroyed_def buffer_emit_frame)

lemma destroyed_after_call: "destroyed w \<Longrightarrow> destroyed (after_call calc c w)"
  by (cases c)
     (simp_all add: destroyed_addAttribute destroyed_addIndex destroyed_bounds(1)
        destroyed_destroy(1) destroyed_on destroyed_emit destroyed_removeAllListeners
        destroyed_buffer_emit)

lemma destroyed_after_calls: "destroyed w \<Longrightarrow> destroyed (after_calls calc cs w)"
  unfolding after_calls_def
  by (induction cs arbitrary: w) (simp_all add: destroyed_after_call)

lemma destroy_destroyed: "destroy d w = (Inr u, w') \<Longrightarrow> destroyed w'"
  using destroy_Inr [of d w u w'] by (simp add: destroyed_def)

lemma destroyed_watched_eq:
  "snd (destroy False watched_geometry) =
     \<lparr>geo = \<lparr>topology = TriangleList, uid = 0, attributes = None, buffers = None,
              indexBuffer = None, priv_layoutKey = 0, instanceCount = 1,
              priv_bounds = None, priv_boundsDirty = False, listeners = []\<rparr>,
       heap = [\<lparr>data = [0, 0, 0, 100, 100, 100, 100, 0], index = False,
                buffer_listeners = [(BufferUpdate, OnBufferUpdate), (BufferChange, OnBufferUpdate)]\<rparr>],
       calls = [GetGeometryBoundsCalled, ListenerCalled 8 Destroy]\<rparr>"
  by (simp add: destroy_False notifications_def watched_geometry_eq)

lemma later_run_flag:
  "priv_boundsDirty (geo (after_calls unit_calc later_run (snd (destroy False watched_geometry))))"
  "\<not> priv_boundsDirty (geo (after_calls unit_calc later_run_read (snd (destroy False watched_geometry))))"
  unfolding destroyed_watched_eq
  by (simp_all add: later_run_read_def later_run_def after_calls_def
      buffer_emit_def onBufferUpdate_def emit_def addIndex_def ensureIsBuffer_def destroy_def
      removeAllListeners_def bounds_def getGeometryBounds_def getAttribute_def Let_def)

text \<open>
  C6 (as the code has it). After \<open>destroy\<close> has returned, \<open>attributes\<close>, \<open>buffers\<close> and
  the cached Bounds are \<open>null\<close>, and they stay \<open>null\<close> whatever happens afterwards:
  calls of any method of the class or of the emitter, notifications from buffers. So at any
  later moment \<open>getAttribute\<close>, \<open>getBuffer\<close>, \<open>addAttribute\<close> and \<open>addIndex\<close> throw a
  TypeError, while \<open>getSize\<close> returns 0 and throws nothing. The \<open>bounds\<close> getter
  throws a TypeError when the dirty flag is set, and clears the flag; when the flag is
  clear it returns the \<open>null\<close> the cache holds and throws nothing.
\<close>

theorem after_destroy:
  assumes "destroy d w = (Inr (), w')"
  shows "getAttribute id' w' = Inl TypeError
       \<and> fst (addAttribute name a w') = Inl TypeError
       \<and> buffers (geo (snd (addAttribute name a w'))) = None
       \<and> attributes (geo (snd (addAttribute name a w'))) = None
       \<and> getSize w' = Inr (Finite 0)
       \<and> (\<not> priv_boundsDirty (geo w') \<longrightarrow> bounds calc w' = (Inr None, w'))
       \<and> destroyed (after_calls calc cs w')
       \<and> getAttribute id' (after_calls calc cs w') = Inl TypeError
       \<and> getBuffer id' (after_calls calc cs w') = Inl TypeError
       \<and> fst (addAttribute name a (after_calls calc cs w')) = Inl TypeError
       \<and> fst (addIndex ib (after_calls calc cs w')) = Inl TypeError
       \<and> getSize (after_calls calc cs w') = Inr (Finite 0)
       \<and> (priv_boundsDirty (geo (after_calls calc cs w')) \<longrightarrow>
            fst (bounds calc (after_calls calc cs w')) = Inl TypeError
          \<and> \<not> priv_boundsDirty (geo (snd (bounds calc (after_calls calc cs w')))))
       \<and> (\<not> priv_boundsDirty (geo (after_calls calc cs w')) \<longrightarrow>
            bounds calc (after_calls calc cs w') = (Inr None, after_calls calc cs w'))"
proof -
  have w': "destroyed w'"
    using assms by (rule destroy_destroyed)
  have now: "getAttribute id' w' = Inl TypeError
       \<and> fst (addAttribute name a w') = Inl TypeError
       \<and> buffers (geo (snd (addAttribute name a w'))) = None
       \<and> attributes (geo (snd (addAttribute name a w'))) = None
       \<and> getSize w' = Inr (Finite 0)
       \<and> (\<not> priv_boundsDirty (geo w') \<longrightarrow> bounds calc w' = (Inr None, w'))"
    using w' destroyed_addAttribute [OF w', of name a] destroyed_bounds(3) [OF w', of calc]
    by (simp add: destroyed_def getAttribute_def getSize_def)
  let ?w = "after_calls calc cs w'"
  have later: "destroyed ?w"
    using w' by (rule destroyed_after_calls)
  have "getAttribute id' ?w = Inl TypeError \<and> getBuffer id' ?w = Inl TypeError
      \<and> getSize ?w = Inr (Finite 0)"
    using later by (simp add: destroyed_def getAttribute_def getBuffer_def getSize_def)
  moreover have "priv_boundsDirty (geo ?w) \<longrightarrow>
            fst (bounds calc ?w) = Inl TypeError
          \<and> \<not> priv_boundsDirty (geo (snd (bounds calc ?w)))"
    using destroyed_bounds(2) [OF later, of calc] by simp
  ultimately show ?thesis
    using now later destroyed_addAttribute [OF later, of name a] destroyed_addIndex [OF later, of ib]
      destroyed_bounds(3) [OF later, of calc]
    by simp
qed

theorem after_destroy_witness:
  "destroy False watched_geometry = (Inr (), snd (destroy False watched_geometry))
   \<and> \<not> priv_boundsDirty (geo (snd (destroy False watched_geometry)))
   \<and> getAttribute ''aPosition'' (snd (destroy False watched_geometry)) = Inl TypeError
   \<and> fst (addAttribute ''aUv'' (Plain (NumberArray [0, 1])) (snd (destroy False watched_geometry))) =
       Inl TypeError
   \<and> getSize (snd (destroy False watched_geometry)) = Inr (Finite 0)
   \<and> bounds unit_calc (snd (destroy False watched_geometry)) =
       (Inr None, snd (destroy False watched_geometry))
   \<and> priv_boundsDirty (geo (after_calls unit_calc later_run (snd (destroy False watched_geometry))))
   \<and> fst (bounds unit_calc (after_calls unit_calc later_run (snd (destroy False watched_geometry)))) =
       Inl TypeError
   \<and> getAttribute ''aPosition'' (after_calls unit_calc later_run (snd (destroy False watched_geometry))) =
       Inl TypeError
   \<and> fst (addAttribute ''aUv'' (Plain (NumberArray [0, 1]))
            (after_calls unit_calc later_run (snd (destroy False watched_geometry)))) = Inl TypeError
   \<and> getSize (after_calls unit_calc later_run (snd (destroy False watched_geometry))) = Inr (Finite 0)
   \<and> \<not> priv_boundsDirty (geo (after_calls unit_calc later_run_read (snd (destroy False watched_geometry))))
   \<and> bounds unit_calc (after_calls unit_calc later_run_read (snd (destroy False watched_geometry))) =
       (Inr None, after_calls unit_calc later_run_read (snd (destroy False watched_geometry)))"
proof -
  have d: "destroy False watched_geometry = (Inr (), snd (destroy False watched_geometry))"
    by (simp add: destroy_False)
  have c: "\<not> priv_boundsDirty (geo (snd (destroy False watched_geometry)))"
    by (simp add: destroyed_watched_eq)
  have one: "priv_boundsDirty (geo (after_calls unit_calc later_run (snd (destroy False watched_geometry))))
   \<and> getAttribute ''aPosition'' (snd (destroy False watched_geometry)) = Inl TypeError
   \<and> fst (addAttribute ''aUv'' (Plain (NumberArray [0, 1])) (snd (destroy False watched_geometry))) =
       Inl TypeError
   \<and> getSize (snd (destroy False watched_geometry)) = Inr (Finite 0)
   \<and> bounds unit_calc (snd (destroy False watched_geometry)) =
       (Inr None, snd (destroy False watched_geometry))
   \<and> fst (bounds unit_calc (after_calls unit_calc later_run (snd (destroy False watched_geometry)))) =
       Inl TypeError
   \<and> getAttribute ''aPosition'' (after_calls unit_calc later_run (snd (destroy False watched_geometry))) =
       Inl TypeError
   \<and> fst (addAttribute ''aUv'' (Plain (NumberArray [0, 1]))
            (after_calls unit_calc later_run (snd (destroy False watched_geometry)))) = Inl TypeError
   \<and> getSize (after_calls unit_calc later_run (snd (destroy False watched_geometry))) = Inr (Finite 0)"
    using after_destroy [OF d, where id' = "''aPosition''" and name = "''aUv''"
        and a = "Plain (NumberArray [0, 1])" and calc = unit_calc and cs = later_run
        and ib = "IsBuffer 0"]
      c later_run_flag(1)
    by (elim conjE) simp
  have two: "bounds unit_calc (after_calls unit_calc later_run_read (snd (destroy False watched_geometry))) =
       (Inr None, after_calls unit_calc later_run_read (snd (destroy False watched_geometry)))"
    using after_destroy [OF d, where id' = "''aPosition''" and name = "''aUv''"
        and a = "Plain (NumberArray [0, 1])" and calc = unit_calc and cs = later_run_read
        and ib = "IsBuffer 0"]
      later_run_flag(2)
    by (elim conjE) simp
  show ?thesis
    using d c one two later_run_flag by simp
qed

text \<open>
  C6 as stated fails: after \<open>destroy\<close>, with either argument, \<open>getSize\<close> returns
  0, and after \<open>destroy(false)\<close> of a geometry whose bounds had been read, so that
  the flag is clear, the \<open>bounds\<close> getter returns \<open>null\<close>; neither throws.
\<close>

theorem after_destroy_counterexample:
  "fst (destroy True watched_geometry) = Inr ()
   \<and> getSize (snd (destroy True watched_geometry)) = Inr (Finite 0)
   \<and> \<not> isl (getSize (snd (destroy True watched_geometry)))
   \<and> fst (destroy False watched_geometry) = Inr ()
   \<and> getSize (snd (destroy False watched_geometry)) = Inr (Finite 0)
   \<and> fst (bounds unit_calc (snd (destroy False watched_geometry))) = Inr None
   \<and> \<not> isl (fst (bounds unit_calc (snd (destroy False watched_geometry))))"
proof -
  have b: "buffers (geo watched_geometry) = Some [0]"
    by (simp add: watched_geometry_eq)
  have c: "\<not> priv_boundsDirty (geo watched_geometry)"
    by (simp add: watched_geometry_eq)
  show ?thesis
    using c by (simp add: destroy_live [OF b] destroy_False getSize_def bounds_def)
qed

end
